theory Spec2Isabelle
  imports Complex_Main "HOL-Library.Char_ord" "HOL-Library.List_Lexorder"
begin

section \<open>Provider daily status report: the pivot and summary renderers\<close>

text \<open>
  A shallow embedding of \<^verbatim>\<open>run_pipeline_dbt.py\<close>: the cell mapping \<^verbatim>\<open>map_status\<close>,
  the per-provider baselines, the colouring of the pivot grid and of the summary table,
  and the launcher. A finite float is the real number it denotes; what the libraries
  compute in double arithmetic (\<^verbatim>\<open>mean\<close>, \<^verbatim>\<open>std\<close>, the z-score) is a parameter of the
  model, not a formula of it.
\<close>

subsection \<open>Calendar days\<close>

text \<open>
  An \<^verbatim>\<open>ACTIVITY_DATE\<close> is a calendar day (a timestamp at midnight). The ordinal is the
  proleptic Gregorian day number, 1 for 0001-01-01, and \<^verbatim>\<open>weekday()\<close> counts from
  Monday = 0 to Sunday = 6.
\<close>

datatype date = Date (year: nat) (month: nat) (day: nat)

definition is_leap :: "nat \<Rightarrow> bool" where
  "is_leap y \<longleftrightarrow> y mod 4 = 0 \<and> (y mod 100 \<noteq> 0 \<or> y mod 400 = 0)"

definition days_in_month :: "nat \<Rightarrow> nat \<Rightarrow> nat" where
  "days_in_month y m =
     (if m = 2 \<and> is_leap y then 29
      else [31, 28, 31, 30, 31, 30, 31, 31, 30, 31, 30, 31] ! (m - 1))"

definition valid_date :: "date \<Rightarrow> bool" where
  "valid_date d \<longleftrightarrow>
     1 \<le> year d \<and> year d \<le> 9999 \<and> 1 \<le> month d \<and> month d \<le> 12 \<and>
     1 \<le> day d \<and> day d \<le> days_in_month (year d) (month d)"

definition days_before_year :: "nat \<Rightarrow> nat" where
  "days_before_year y =
     (let p = y - 1 in p * 365 + p div 4 - p div 100 + p div 400)"

definition days_before_month :: "nat \<Rightarrow> nat \<Rightarrow> nat" where
  "days_before_month y m =
     [0, 31, 59, 90, 120, 151, 181, 212, 243, 273, 304, 334] ! (m - 1)
       + (if m > 2 \<and> is_leap y then 1 else 0)"

definition toordinal :: "date \<Rightarrow> nat" where
  "toordinal d = days_before_year (year d) + days_before_month (year d) (month d) + day d"

text \<open>Chronological order, written on year, month and day.\<close>

definition before :: "date \<Rightarrow> date \<Rightarrow> bool" where
  "before a b \<longleftrightarrow>
     year a < year b \<or> (year a = year b \<and> (month a < month b \<or> (month a = month b \<and> day a < day b)))"

definition weekday :: "date \<Rightarrow> nat" where
  "weekday d = (toordinal d + 6) mod 7"

definition day_name :: "date \<Rightarrow> string" where
  "day_name d =
     [''Monday'', ''Tuesday'', ''Wednesday'', ''Thursday'', ''Friday'', ''Saturday'', ''Sunday'']
       ! weekday d"

definition digit :: "nat \<Rightarrow> char" where
  "digit n = ''0123456789'' ! n"

definition pad2 :: "nat \<Rightarrow> string" where
  "pad2 n = [digit (n div 10), digit (n mod 10)]"

definition pad4 :: "nat \<Rightarrow> string" where
  "pad4 n = [digit (n div 1000), digit (n div 100 mod 10), digit (n div 10 mod 10), digit (n mod 10)]"

text \<open>\<^verbatim>\<open>strftime("%d/%m/%Y")\<close>, the \<^verbatim>\<open>DAY_LABEL\<close>.\<close>

definition strftime :: "date \<Rightarrow> string" where
  "strftime d = pad2 (day d) @ ''/'' @ pad2 (month d) @ ''/'' @ pad4 (year d)"

text \<open>\<^verbatim>\<open>day_name().str[:3]\<close>, the \<^verbatim>\<open>WEEKDAY\<close> label.\<close>

definition weekday_label :: "date \<Rightarrow> string" where
  "weekday_label d = take 3 (day_name d)"

subsection \<open>Python values and the conversions \<^verbatim>\<open>float()\<close> and \<^verbatim>\<open>int()\<close>\<close>

datatype py_error = TypeError | ValueError | OverflowError | IndexError | KeyError | IndentationError

datatype pyfloat = FNaN | FInf | FNegInf | FReal real

datatype pyval = PNone | PFloat pyfloat | PInt int | PStr string

text \<open>
  What \<^verbatim>\<open>float\<close> and \<^verbatim>\<open>int\<close> make of a string is the interpreter's business; the two
  parsers are taken as parameters.
\<close>

record builtins =
  str_float :: "string \<Rightarrow> py_error + pyfloat"
  str_int :: "string \<Rightarrow> py_error + int"

text \<open>\<^verbatim>\<open>pd.isna\<close> on a scalar.\<close>

definition isna :: "pyval \<Rightarrow> bool" where
  "isna v \<longleftrightarrow> v = PNone \<or> v = PFloat FNaN"

text \<open>
  \<^verbatim>\<open>float(val)\<close>. An integer too large for a double raises OverflowError; below that
  bound the integer's own value stands for the rounded double, which is zero only when
  the integer is.
\<close>

definition py_float :: "'a builtins_scheme \<Rightarrow> pyval \<Rightarrow> py_error + pyfloat" where
  "py_float py v =
     (case v of
        PNone \<Rightarrow> Inl TypeError
      | PFloat f \<Rightarrow> Inr f
      | PInt i \<Rightarrow> (if \<bar>i\<bar> \<ge> 2 ^ 1024 - 2 ^ 970 then Inl OverflowError else Inr (FReal (of_int i)))
      | PStr s \<Rightarrow> str_float py s)"

text \<open>Truncation toward zero, as \<^verbatim>\<open>int\<close> does on a float.\<close>

definition trunc :: "real \<Rightarrow> int" where
  "trunc x = (if 0 \<le> x then \<lfloor>x\<rfloor> else \<lceil>x\<rceil>)"

definition py_int :: "'a builtins_scheme \<Rightarrow> pyval \<Rightarrow> py_error + int" where
  "py_int py v =
     (case v of
        PNone \<Rightarrow> Inl TypeError
      | PFloat FNaN \<Rightarrow> Inl ValueError
      | PFloat FInf \<Rightarrow> Inl OverflowError
      | PFloat FNegInf \<Rightarrow> Inl OverflowError
      | PFloat (FReal x) \<Rightarrow> Inr (trunc x)
      | PInt i \<Rightarrow> Inr i
      | PStr s \<Rightarrow> str_int py s)"

subsection \<open>\<^verbatim>\<open>map_status\<close>\<close>

text \<open>
  A value of a worksheet cell. \<^verbatim>\<open>map_status\<close> returns a string or a Python int; once a
  row has gone through the array of the frame the sheet may hold a numpy integer or a
  numpy float in its place.
\<close>

datatype cellval = CStr string | CInt int | CNumpy int | CFloat real

definition map_status :: "'a builtins_scheme \<Rightarrow> pyval \<Rightarrow> cellval" where
  "map_status py val =
     (if isna val then CStr ''MISSING''
      else case py_float py val of
             Inl _ \<Rightarrow> CStr ''MISSING''
           | Inr f \<Rightarrow>
               if f = FReal 0 then CStr ''MISSING''
               else (case py_int py val of
                       Inl _ \<Rightarrow> CStr ''MISSING''
                     | Inr i \<Rightarrow> CInt i))"

subsection \<open>Baselines\<close>

text \<open>
  \<^verbatim>\<open>Series.mean()\<close>, \<^verbatim>\<open>Series.std()\<close> (the sample standard deviation) and the z-score
  expression \<^verbatim>\<open>abs((float(c.value) - mean) / std)\<close> are computed by the libraries in double
  arithmetic. They are taken as parameters of the environment, next to the parsers; a
  result is a float in the full sense, since a sum may overflow.
\<close>

record environment = builtins +
  np_mean :: "real list \<Rightarrow> pyfloat"
  np_std :: "real list \<Rightarrow> pyfloat"
  z_score :: "real \<Rightarrow> pyfloat \<Rightarrow> pyfloat \<Rightarrow> pyfloat"

text \<open>The comparison \<open>x > c\<close> of a float with a finite constant: false on NaN.\<close>

definition fgt :: "pyfloat \<Rightarrow> real \<Rightarrow> bool" where
  "fgt x c = (case x of FReal r \<Rightarrow> r > c | FInf \<Rightarrow> True | FNegInf \<Rightarrow> False | FNaN \<Rightarrow> False)"

record baseline =
  mean :: pyfloat
  std :: pyfloat

text \<open>The two entries \<^verbatim>\<open>"weekday"\<close> and \<^verbatim>\<open>"weekend"\<close> of a provider's \<^verbatim>\<open>stats\<close> dictionary.\<close>

record provider_stat =
  weekday_stats :: "baseline option"
  weekend_stats :: "baseline option"

text \<open>\<^verbatim>\<open>series[series.notna() & (series > 0)]\<close>: a missing record is \<open>None\<close>.\<close>

definition valid_values :: "real option list \<Rightarrow> real list" where
  "valid_values series = concat (map (\<lambda>v. case v of None \<Rightarrow> [] | Some x \<Rightarrow> if x > 0 then [x] else []) series)"

definition class_stats :: "environment \<Rightarrow> real option list \<Rightarrow> baseline option" where
  "class_stats py series =
     (let valid = valid_values series
      in if length valid > 2 then Some \<lparr>mean = np_mean py valid, std = np_std py valid\<rparr>
         else None)"

subsection \<open>The activity frame and its pivot\<close>

text \<open>
  A date as a column holds it: the \<^verbatim>\<open>datetime.date\<close> the connector returns for a DATE
  column, or the timestamp \<^verbatim>\<open>pd.to_datetime\<close> makes of it.
\<close>

datatype dateval = RawDate date | Timestamp date

definition to_datetime :: "dateval \<Rightarrow> dateval" where
  "to_datetime v = (case v of RawDate d \<Rightarrow> Timestamp d | Timestamp d \<Rightarrow> Timestamp d)"

definition day_of :: "dateval \<Rightarrow> date" where
  "day_of v = (case v of RawDate d \<Rightarrow> d | Timestamp d \<Rightarrow> d)"

text \<open>
  The data frame, row by row: the three columns of the query and the two display
  columns \<^verbatim>\<open>DAY_LABEL\<close> and \<^verbatim>\<open>WEEKDAY\<close>, absent until something assigns them.
\<close>

record frame_row =
  PROVIDER :: string
  ACTIVITY_DATE :: dateval
  RECORDS :: "real option"
  DAY_LABEL :: "string option"
  WEEKDAY :: "string option"

type_synonym dataframe = "frame_row list"

text \<open>
  The reader's own work on what the cursor fetched (lines 51 to 54): the frame, its
  dates made timestamps, and the day label added.
\<close>

definition query_snowflake_activity :: "(string \<times> dateval \<times> real option) list \<Rightarrow> dataframe" where
  "query_snowflake_activity fetched =
     (let df = map (\<lambda>(p, d, n). \<lparr>PROVIDER = p, ACTIVITY_DATE = d, RECORDS = n,
                                  DAY_LABEL = None, WEEKDAY = None\<rparr>) fetched;
          df1 = map (\<lambda>r. r\<lparr>ACTIVITY_DATE := to_datetime (ACTIVITY_DATE r)\<rparr>) df;
          df2 = map (\<lambda>r. r\<lparr>DAY_LABEL := Some (strftime (day_of (ACTIVITY_DATE r)))\<rparr>) df1
      in df2)"

text \<open>
  One row as the renderer reads it: \<^verbatim>\<open>PROVIDER\<close>, the day of \<^verbatim>\<open>ACTIVITY_DATE\<close>,
  \<^verbatim>\<open>RECORDS\<close>.
\<close>

record activity =
  provider :: string
  activity_date :: date
  records :: "real option"

definition base :: "dataframe \<Rightarrow> activity list" where
  "base df = map (\<lambda>r. \<lparr>provider = PROVIDER r, activity_date = day_of (ACTIVITY_DATE r),
                       records = RECORDS r\<rparr>) df"

text \<open>
  \<^verbatim>\<open>drop_duplicates().sort_values("ACTIVITY_DATE")\<close>: the distinct days, oldest first.
\<close>

definition day_order :: "activity list \<Rightarrow> date list" where
  "day_order rows = sort_key toordinal (remdups (map activity_date rows))"

text \<open>\<^verbatim>\<open>sorted(df["PROVIDER"].unique())\<close>.\<close>

definition providers :: "activity list \<Rightarrow> string list" where
  "providers rows = sort (remdups (map provider rows))"

text \<open>
  \<^verbatim>\<open>df.pivot(index="PROVIDER", columns="DAY_LABEL", values="RECORDS")\<close>: two rows with the
  same provider and label raise ValueError; a pair with no row is NaN.
\<close>

definition pivot_cell :: "activity list \<Rightarrow> string \<Rightarrow> string \<Rightarrow> real option" where
  "pivot_cell rows p l =
     (case filter (\<lambda>r. provider r = p \<and> strftime (activity_date r) = l) rows of
        [] \<Rightarrow> None
      | r # _ \<Rightarrow> records r)"

definition pivot :: "activity list \<Rightarrow> py_error + (string \<Rightarrow> string \<Rightarrow> real option)" where
  "pivot rows =
     (if distinct (map (\<lambda>r. (provider r, strftime (activity_date r))) rows)
      then Inr (pivot_cell rows) else Inl ValueError)"

text \<open>An entry of the numeric grid as the Python value \<^verbatim>\<open>map_status\<close> receives.\<close>

definition of_records :: "real option \<Rightarrow> pyval" where
  "of_records v = (case v of None \<Rightarrow> PFloat FNaN | Some x \<Rightarrow> PFloat (FReal x))"

definition stats_of :: "environment \<Rightarrow> activity list \<Rightarrow> string \<Rightarrow> provider_stat" where
  "stats_of py rows p =
     (let provider_data = filter (\<lambda>r. provider r = p) rows;
          weekday_data = map records (filter (\<lambda>r. weekday (activity_date r) < 5) provider_data);
          weekend_data = map records (filter (\<lambda>r. weekday (activity_date r) \<ge> 5) provider_data)
      in \<lparr>weekday_stats = class_stats py weekday_data,
          weekend_stats = class_stats py weekend_data\<rparr>)"

definition provider_stats ::
  "environment \<Rightarrow> activity list \<Rightarrow> string list \<Rightarrow> (string \<rightharpoonup> provider_stat)" where
  "provider_stats py rows ps = map_of (map (\<lambda>p. (p, stats_of py rows p)) ps)"

subsection \<open>What the sheet holds\<close>

text \<open>
  \<^verbatim>\<open>pivot_records.map(map_status)\<close> gives each column the dtype its values allow: a column
  with a string stays a column of Python objects, a column of integers becomes int64, or
  uint64 when a value is beyond int64 and none is negative, and stays Python objects when
  neither fits.
\<close>

datatype dtype = Object | Int64 | UInt64 | Float64

fun is_str :: "cellval \<Rightarrow> bool" where
  "is_str (CStr s) = True"
| "is_str v = False"

fun int_of :: "cellval \<Rightarrow> int" where
  "int_of (CInt n) = n"
| "int_of (CNumpy n) = n"
| "int_of v = 0"

definition column_dtype :: "cellval list \<Rightarrow> dtype" where
  "column_dtype col =
     (let ns = map int_of col
      in if list_ex is_str col
            \<or> list_ex (\<lambda>n. n > 2 ^ 64 - 1 \<or> n < - (2 ^ 63)) ns
            \<or> (list_ex (\<lambda>n. n > 2 ^ 63 - 1) ns \<and> list_ex (\<lambda>n. n < 0) ns)
         then Object
         else if list_ex (\<lambda>n. n > 2 ^ 63 - 1) ns then UInt64
         else Int64)"

text \<open>
  \<^verbatim>\<open>pivot.iterrows()\<close> goes through \<^verbatim>\<open>pivot.values\<close>, one array of the dtype common to all
  columns: Python objects as soon as one column is, and float64 for int64 next to uint64.
\<close>

definition frame_dtype :: "cellval list list \<Rightarrow> dtype" where
  "frame_dtype columns =
     (let ds = map column_dtype columns
      in if Object \<in> set ds then Object
         else if UInt64 \<in> set ds then (if Int64 \<in> set ds then Float64 else UInt64)
         else Int64)"

text \<open>
  \<^verbatim>\<open>list(row.values)\<close>, the object that \<^verbatim>\<open>ws.append\<close> stores and \<^verbatim>\<open>c.value\<close> gives back: in
  an array of Python objects the integer \<^verbatim>\<open>map_status\<close> returned, in an integer array a
  numpy integer, in a float array a numpy float.
\<close>

definition to_runtime :: "dtype \<Rightarrow> cellval \<Rightarrow> cellval" where
  "to_runtime dt v =
     (case v of
        CInt n \<Rightarrow>
          (case dt of
             Object \<Rightarrow> CInt n
           | Int64 \<Rightarrow> CNumpy n
           | UInt64 \<Rightarrow> CNumpy n
           | Float64 \<Rightarrow> CFloat (of_int n))
      | _ \<Rightarrow> v)"

subsection \<open>Fills and the colouring of a data cell\<close>

datatype pattern_fill = PatternFill string

definition red_fill :: pattern_fill where "red_fill = PatternFill ''FFC7CE''"
definition green_fill :: pattern_fill where "green_fill = PatternFill ''C6EFCE''"
definition yellow_fill :: pattern_fill where "yellow_fill = PatternFill ''FFEB9C''"
definition orange_fill :: pattern_fill where "orange_fill = PatternFill ''FFC000''"
definition grey_fill :: pattern_fill where "grey_fill = PatternFill ''D9D9D9''"

text \<open>
  A cell of the block: \<open>cvalue\<close> is the string or the number the cell shows, the value
  as \<^verbatim>\<open>map_status\<close> returned it (the object the sheet holds for it is \<open>to_runtime\<close> of
  it), and \<open>cfill\<close> its fill.
\<close>

record cell =
  cvalue :: cellval
  cfill :: "pattern_fill option"

text \<open>
  The z-score branch (lines 234 to 243), on the selected baseline and \<^verbatim>\<open>float(c.value)\<close>.
\<close>

definition z_fill :: "environment \<Rightarrow> baseline option \<Rightarrow> real \<Rightarrow> pattern_fill" where
  "z_fill py stats x =
     (case stats of
        Some b \<Rightarrow>
          if fgt (std b) 0 then
            (let z = z_score py x (mean b) (std b)
             in if fgt z 3 then orange_fill
                else if fgt z 2 then yellow_fill
                else green_fill)
          else green_fill
      | None \<Rightarrow> green_fill)"

text \<open>
  The body of the inner loop for a data column (lines 226 to 245), on the object the
  sheet holds. A Python int and a numpy float pass \<^verbatim>\<open>isinstance(c.value, (int, float))\<close>;
  a numpy integer does not, and falls to the last branch.
\<close>

definition cell_fill ::
  "environment \<Rightarrow> (string \<rightharpoonup> provider_stat) \<Rightarrow> string \<Rightarrow> date \<Rightarrow> cellval
     \<Rightarrow> py_error + pattern_fill" where
  "cell_fill py pstats provider_name d v =
     (let is_weekend = weekday d \<ge> 5;
          numeric = (\<lambda>x. case pstats provider_name of
                            None \<Rightarrow> Inl KeyError
                          | Some st \<Rightarrow>
                              Inr (z_fill py (if is_weekend then weekend_stats st
                                              else weekday_stats st) x))
      in case v of
           CStr s \<Rightarrow> Inr (if s = ''MISSING'' then red_fill else green_fill)
         | CInt n \<Rightarrow> numeric (of_int n)
         | CFloat x \<Rightarrow> numeric x
         | CNumpy n \<Rightarrow> Inr green_fill)"

subsection \<open>\<^verbatim>\<open>build_pivot_table\<close>\<close>

text \<open>A loop whose body may raise: the first error ends it.\<close>

fun collect :: "(py_error + 'a) list \<Rightarrow> py_error + 'a list" where
  "collect [] = Inr []"
| "collect (x # xs) =
     (case x of
        Inl e \<Rightarrow> Inl e
      | Inr v \<Rightarrow> (case collect xs of Inl e \<Rightarrow> Inl e | Inr vs \<Rightarrow> Inr (v # vs)))"

text \<open>
  A header row: its first cell, then one cell per day, a weekend day filled grey.
  \<^verbatim>\<open>ws[header_row]\<close> spans the columns 1 to \<^verbatim>\<open>ws.max_column\<close>, so on a sheet already
  wider than this grid \<^verbatim>\<open>day_order.iloc[idx-2]\<close> runs past the last day and raises.
\<close>

definition header_cells :: "nat \<Rightarrow> date list \<Rightarrow> string \<Rightarrow> string list \<Rightarrow> py_error + cell list" where
  "header_cells ws_max_column days first labels =
     (if ws_max_column > Suc (length days) then Inl IndexError
      else Inr (\<lparr>cvalue = CStr first, cfill = None\<rparr> #
                map (\<lambda>(d, l). \<lparr>cvalue = CStr l,
                               cfill = (if weekday d \<ge> 5 then Some grey_fill else None)\<rparr>)
                    (zip days labels)))"

text \<open>
  One data row: each value goes to the sheet as the frame's dtype makes it, and is
  coloured as that object.
\<close>

definition data_row ::
  "environment \<Rightarrow> (string \<rightharpoonup> provider_stat) \<Rightarrow> dtype \<Rightarrow> date list \<Rightarrow> string \<Rightarrow> cellval list
     \<Rightarrow> py_error + (string \<times> cell list)" where
  "data_row py pstats dt days provider_name vals =
     (case collect (map (\<lambda>(d, v). case cell_fill py pstats provider_name d (to_runtime dt v) of
                                      Inl e \<Rightarrow> Inl e
                                    | Inr f \<Rightarrow> Inr \<lparr>cvalue = v, cfill = Some f\<rparr>)
                        (zip days vals)) of
        Inl e \<Rightarrow> Inl e
      | Inr cs \<Rightarrow> Inr (provider_name, cs))"

text \<open>
  What the renderer writes: the weekday row, the date row, and one row per provider (its
  name, then its cells). The timestamp and title lines, borders, alignment and widths
  are left out; the sheet is empty from \<^verbatim>\<open>start_row\<close> down, as every caller has it.
\<close>

record pivot_block =
  weekday_row :: "cell list"
  date_row :: "cell list"
  data_rows :: "(string \<times> cell list) list"

definition render_pivot :: "environment \<Rightarrow> nat \<Rightarrow> activity list \<Rightarrow> py_error + pivot_block" where
  "render_pivot py ws_max_column rows =
     (let days = day_order rows;
          day_labels_sorted = map strftime days;
          weekday_labels_sorted = map weekday_label days;
          ps = providers rows
      in case pivot rows of
           Inl e \<Rightarrow> Inl e
         | Inr pv \<Rightarrow>
             (let pivot_records = map (\<lambda>p. map (pv p) day_labels_sorted) ps;
                  pstats = provider_stats py rows ps;
                  pivoted = map (map (\<lambda>v. map_status py (of_records v))) pivot_records;
                  dt = frame_dtype (map (\<lambda>l. map (\<lambda>p. map_status py (of_records (pv p l))) ps)
                                        day_labels_sorted)
              in case header_cells ws_max_column days [] weekday_labels_sorted of
                   Inl e \<Rightarrow> Inl e
                 | Inr wk \<Rightarrow>
                     (case header_cells ws_max_column days ''Provider'' day_labels_sorted of
                        Inl e \<Rightarrow> Inl e
                      | Inr dr \<Rightarrow>
                          (case collect (map (\<lambda>(p, vals). data_row py pstats dt days p vals)
                                             (zip ps pivoted)) of
                             Inl e \<Rightarrow> Inl e
                           | Inr rs \<Rightarrow>
                               Inr \<lparr>weekday_row = wk, date_row = dr, data_rows = rs\<rparr>))))"

text \<open>
  The renderer first assigns three columns of the frame it was given (lines 131 to
  133): the dates through \<^verbatim>\<open>pd.to_datetime\<close>, the day label, the weekday. Then it renders
  from the frame so changed.
\<close>

definition build_pivot_table ::
  "environment \<Rightarrow> nat \<Rightarrow> dataframe \<Rightarrow> dataframe \<times> (py_error + pivot_block)" where
  "build_pivot_table py ws_max_column df =
     (let df1 = map (\<lambda>r. r\<lparr>ACTIVITY_DATE := to_datetime (ACTIVITY_DATE r)\<rparr>) df;
          df2 = map (\<lambda>r. r\<lparr>DAY_LABEL := Some (strftime (day_of (ACTIVITY_DATE r)))\<rparr>) df1;
          df3 = map (\<lambda>r. r\<lparr>WEEKDAY := Some (weekday_label (day_of (ACTIVITY_DATE r)))\<rparr>) df2
      in (df3, render_pivot py ws_max_column (base df3)))"

subsection \<open>\<^verbatim>\<open>build_summary_table\<close>\<close>

record summary_row =
  s_provider :: pyval
  apc_missing_days :: pyval
  op_missing_days :: pyval
  ecds_missing_days :: pyval
  total_missing_submissions :: pyval
  action_required :: pyval

record scell =
  svalue :: pyval
  sfill :: "pattern_fill option"

record summary_block =
  header :: "scell list"
  summary_rows :: "scell list list"

text \<open>
  One data row of the sheet: the six values appended, then the fill chosen from
  \<^verbatim>\<open>int(total.value)\<close>, a conversion that nothing catches here.
\<close>

definition summary_cells :: "'a builtins_scheme \<Rightarrow> summary_row \<Rightarrow> py_error + scell list" where
  "summary_cells py r =
     (let row = [s_provider r, apc_missing_days r, op_missing_days r, ecds_missing_days r,
                 total_missing_submissions r, action_required r]
      in case py_int py (total_missing_submissions r) of
           Inl e \<Rightarrow> Inl e
         | Inr total_value \<Rightarrow>
             Inr (map (\<lambda>v. \<lparr>svalue = v,
                            sfill = Some (if total_value > 0 then red_fill else green_fill)\<rparr>) row))"

definition build_summary_table ::
  "'a builtins_scheme \<Rightarrow> summary_row list \<Rightarrow> summary_row list \<times> (py_error + summary_block)" where
  "build_summary_table py df =
     (df,
      case collect (map (summary_cells py) df) of
        Inl e \<Rightarrow> Inl e
      | Inr rs \<Rightarrow>
          Inr \<lparr>header = map (\<lambda>h. \<lparr>svalue = PStr h, sfill = None\<rparr>)
                            [''Provider'', ''APC Missing'', ''OP Missing'', ''ECDS Missing'',
                             ''Total Missing'', ''Action Required''],
               summary_rows = rs\<rparr>)"

subsection \<open>\<^verbatim>\<open>export_to_excel\<close> and the launcher\<close>

text \<open>
  The four blocks go to one fresh sheet, so each pivot meets the width the blocks before
  it left: six columns after the summary, then one more than the days of the last grid.
\<close>

definition export_to_excel ::
  "environment \<Rightarrow> summary_row list \<Rightarrow> dataframe \<Rightarrow> dataframe \<Rightarrow> dataframe
     \<Rightarrow> py_error + (summary_block \<times> pivot_block \<times> pivot_block \<times> pivot_block)" where
  "export_to_excel py df_summary df_inpatient df_op df_ecds =
     (case snd (build_summary_table py df_summary) of
        Inl e \<Rightarrow> Inl e
      | Inr s \<Rightarrow>
          (case snd (build_pivot_table py 6 df_inpatient) of
             Inl e \<Rightarrow> Inl e
           | Inr a \<Rightarrow>
               (case snd (build_pivot_table py (max 6 (length (date_row a))) df_op) of
                  Inl e \<Rightarrow> Inl e
                | Inr b \<Rightarrow>
                    (case snd (build_pivot_table py
                                 (max (max 6 (length (date_row a))) (length (date_row b))) df_ecds) of
                       Inl e \<Rightarrow> Inl e
                     | Inr c \<Rightarrow> Inr (s, a, b, c)))))"

text \<open>How a run of the script ends: its exit status, and whether the report was saved.\<close>

record run_result =
  exit_code :: nat
  file_written :: bool
  raised :: "py_error option"

text \<open>
  The statements of lines 285 to 314 as one block: the guard on empty frames, then the
  export.
\<close>

definition main_block ::
  "environment \<Rightarrow> summary_row list \<Rightarrow> dataframe \<Rightarrow> dataframe \<Rightarrow> dataframe \<Rightarrow> run_result" where
  "main_block py df_summary df_inpatient df_op df_ecds =
     (if df_summary = [] \<or> base df_inpatient = [] \<or> base df_op = [] \<or> base df_ecds = []
      then \<lparr>exit_code = 0, file_written = False, raised = None\<rparr>
      else case export_to_excel py df_summary df_inpatient df_op df_ecds of
             Inl e \<Rightarrow> \<lparr>exit_code = 1, file_written = False, raised = Some e\<rparr>
           | Inr _ \<Rightarrow> \<lparr>exit_code = 0, file_written = True, raised = None\<rparr>)"

text \<open>
  The layout of the module from line 284 on: each statement with the line it starts on,
  its indentation, and whether it ends in a colon. The statements of lines 294 and 301
  start in column 0; the one of line 308 is indented again.
\<close>

definition module_tail :: "(nat \<times> nat \<times> bool) list" where
  "module_tail =
     [(284, 0, True), (285, 4, False), (286, 4, False), (287, 4, False),
      (294, 0, False), (301, 0, False),
      (308, 4, True), (309, 8, False), (310, 8, False),
      (312, 4, False), (313, 4, False), (314, 4, False)]"

text \<open>
  The interpreter's indentation rule, on a stack of open indentation levels: a deeper
  line is accepted only after a colon, a colon must be followed by a deeper line, and a
  shallower line must return to an open level. The result is the first offending line.
\<close>

fun check_indent :: "nat list \<Rightarrow> bool \<Rightarrow> (nat \<times> nat \<times> bool) list \<Rightarrow> nat option" where
  "check_indent stack expect [] = None"
| "check_indent [] expect ((lineno, ind, opens) # rest) = Some lineno"
| "check_indent (lvl # outer) expect ((lineno, ind, opens) # rest) =
     (if ind > lvl then
        (if expect then check_indent (ind # lvl # outer) opens rest else Some lineno)
      else if expect then Some lineno
      else (case dropWhile (\<lambda>t. t > ind) (lvl # outer) of
              [] \<Rightarrow> Some lineno
            | t # ts \<Rightarrow> if t = ind then check_indent (t # ts) opens rest else Some lineno))"

text \<open>
  Running the file: it is compiled first, and a module that does not compile runs no
  statement at all and ends with status 1.
\<close>

definition run_script ::
  "environment \<Rightarrow> summary_row list \<Rightarrow> dataframe \<Rightarrow> dataframe \<Rightarrow> dataframe \<Rightarrow> run_result" where
  "run_script py df_summary df_inpatient df_op df_ecds =
     (case check_indent [0] False module_tail of
        Some lineno \<Rightarrow> \<lparr>exit_code = 1, file_written = False, raised = Some IndentationError\<rparr>
      | None \<Rightarrow> main_block py df_summary df_inpatient df_op df_ecds)"

subsection \<open>The specification's wording of a baseline\<close>

text \<open>
  The qualifying values of a provider in a weekday-class, as the specification words
  them: the record counts of that provider's rows in that class that are present and
  strictly positive.
\<close>

definition qualifying :: "activity list \<Rightarrow> string \<Rightarrow> bool \<Rightarrow> real list" where
  "qualifying rows p wkend =
     [x. r \<leftarrow> rows, provider r = p, (weekday (activity_date r) \<ge> 5) = wkend,
         Some x \<leftarrow> [records r], x > 0]"

text \<open>
  The sample mean and the sample standard deviation (one degree of freedom removed) of
  the specification, in exact arithmetic.
\<close>

definition spec_mean :: "real list \<Rightarrow> real" where
  "spec_mean xs = sum_list xs / real (length xs)"

definition spec_std :: "real list \<Rightarrow> real" where
  "spec_std xs = sqrt (sum_list (map (\<lambda>x. (x - spec_mean xs)\<^sup>2) xs) / real (length xs - 1))"

subsection \<open>The grid, cell by cell\<close>

text \<open>
  The value and the fill that the renderer's loops give the cell of provider \<open>p\<close> in the
  column of day \<open>d\<close>, written out for one cell: the pivot entry under the day's label
  through \<^verbatim>\<open>map_status\<close>, sent to the sheet under the dtype of the whole grid, and
  coloured from the provider's own baselines.
\<close>

definition cell_value :: "'a builtins_scheme \<Rightarrow> activity list \<Rightarrow> string \<Rightarrow> date \<Rightarrow> cellval" where
  "cell_value py rows p d = map_status py (of_records (pivot_cell rows p (strftime d)))"

definition grid_dtype :: "'a builtins_scheme \<Rightarrow> activity list \<Rightarrow> dtype" where
  "grid_dtype py rows =
     frame_dtype (map (\<lambda>d. map (\<lambda>p. cell_value py rows p d) (providers rows)) (day_order rows))"

definition grid_fill :: "environment \<Rightarrow> activity list \<Rightarrow> string \<Rightarrow> date \<Rightarrow> cellval \<Rightarrow> pattern_fill" where
  "grid_fill py rows p d v =
     (case v of
        CStr s \<Rightarrow> if s = ''MISSING'' then red_fill else green_fill
      | CInt n \<Rightarrow> z_fill py (if weekday d \<ge> 5 then weekend_stats (stats_of py rows p)
                             else weekday_stats (stats_of py rows p)) (of_int n)
      | CFloat x \<Rightarrow> z_fill py (if weekday d \<ge> 5 then weekend_stats (stats_of py rows p)
                               else weekday_stats (stats_of py rows p)) x
      | CNumpy n \<Rightarrow> green_fill)"

definition grid_cell :: "environment \<Rightarrow> activity list \<Rightarrow> string \<Rightarrow> date \<Rightarrow> cell" where
  "grid_cell py rows p d =
     \<lparr>cvalue = cell_value py rows p d,
      cfill = Some (grid_fill py rows p d
                      (to_runtime (grid_dtype py rows) (cell_value py rows p d)))\<rparr>"

subsection \<open>Small frames\<close>

text \<open>
  An environment whose \<^verbatim>\<open>float\<close> and \<^verbatim>\<open>int\<close> reject every string and whose numerics are
  exact.
\<close>

definition no_parse :: environment where
  "no_parse =
     \<lparr>str_float = (\<lambda>s. Inl ValueError), str_int = (\<lambda>s. Inl ValueError),
      np_mean = (\<lambda>xs. FReal (spec_mean xs)), np_std = (\<lambda>xs. FReal (spec_std xs)),
      z_score = (\<lambda>x m s. case m of
                   FReal a \<Rightarrow> (case s of FReal b \<Rightarrow> FReal \<bar>(x - a) / b\<bar> | _ \<Rightarrow> FNaN)
                 | _ \<Rightarrow> FNaN)\<rparr>"

text \<open>The frame the reader returns when the cursor fetched these rows.\<close>

definition frame_of :: "activity list \<Rightarrow> dataframe" where
  "frame_of rows =
     query_snowflake_activity (map (\<lambda>a. (provider a, RawDate (activity_date a), records a)) rows)"

text \<open>
  Two providers over a Monday, a Tuesday and a Saturday: A reports 5, then 0, then 9; B
  reports 7 on the Monday and has no row for the other days.
\<close>

definition example_rows :: "activity list" where
  "example_rows =
     [\<lparr>provider = ''A'', activity_date = Date 2024 1 1, records = Some 5\<rparr>,
      \<lparr>provider = ''A'', activity_date = Date 2024 1 2, records = Some 0\<rparr>,
      \<lparr>provider = ''B'', activity_date = Date 2024 1 1, records = Some 7\<rparr>,
      \<lparr>provider = ''A'', activity_date = Date 2024 1 6, records = Some 9\<rparr>]"

definition example_frame :: dataframe where
  "example_frame = frame_of example_rows"

text \<open>The frame of the specification's example: providers A and B, two days, B absent on the second.\<close>

definition frame_2x2 :: dataframe where
  "frame_2x2 =
     frame_of [\<lparr>provider = ''B'', activity_date = Date 2024 1 1, records = Some 7\<rparr>,
               \<lparr>provider = ''A'', activity_date = Date 2024 1 2, records = Some 6\<rparr>,
               \<lparr>provider = ''A'', activity_date = Date 2024 1 1, records = Some 5\<rparr>]"

text \<open>
  A provider that reports the same count on three weekdays and nothing on the fourth.
\<close>

definition flat_rows :: "activity list" where
  "flat_rows =
     [\<lparr>provider = ''A'', activity_date = Date 2024 3 4, records = Some 5\<rparr>,
      \<lparr>provider = ''A'', activity_date = Date 2024 3 5, records = Some 5\<rparr>,
      \<lparr>provider = ''A'', activity_date = Date 2024 3 6, records = Some 5\<rparr>,
      \<lparr>provider = ''A'', activity_date = Date 2024 3 7, records = Some 0\<rparr>]"

text \<open>
  Three frames of one provider with a positive count on every day, so with no missing
  cell. The first, on eleven weekdays of March 2024: 10 ten times, then 1000. The second,
  on six weekend days and three weekdays: 10 on five weekend days and 1000 on Sunday the
  17th, and 400, 500, 600 from Monday the 4th to Wednesday the 6th. The third, on six
  weekdays: one half, then 100 five times.
\<close>

definition outlier_rows :: "activity list" where
  "outlier_rows =
     map (\<lambda>k. \<lparr>provider = ''A'', activity_date = Date 2024 3 k, records = Some 10\<rparr>)
         [4, 5, 6, 7, 8, 11, 12, 13, 14, 15]
     @ [\<lparr>provider = ''A'', activity_date = Date 2024 3 18, records = Some 1000\<rparr>]"

definition weekend_rows :: "activity list" where
  "weekend_rows =
     [\<lparr>provider = ''A'', activity_date = Date 2024 3 2, records = Some 10\<rparr>,
      \<lparr>provider = ''A'', activity_date = Date 2024 3 3, records = Some 10\<rparr>,
      \<lparr>provider = ''A'', activity_date = Date 2024 3 4, records = Some 400\<rparr>,
      \<lparr>provider = ''A'', activity_date = Date 2024 3 5, records = Some 500\<rparr>,
      \<lparr>provider = ''A'', activity_date = Date 2024 3 6, records = Some 600\<rparr>,
      \<lparr>provider = ''A'', activity_date = Date 2024 3 9, records = Some 10\<rparr>,
      \<lparr>provider = ''A'', activity_date = Date 2024 3 10, records = Some 10\<rparr>,
      \<lparr>provider = ''A'', activity_date = Date 2024 3 16, records = Some 10\<rparr>,
      \<lparr>provider = ''A'', activity_date = Date 2024 3 17, records = Some 1000\<rparr>]"

definition fraction_rows :: "activity list" where
  "fraction_rows =
     \<lparr>provider = ''A'', activity_date = Date 2024 3 4, records = Some (1 / 2)\<rparr>
     # map (\<lambda>k. \<lparr>provider = ''A'', activity_date = Date 2024 3 k, records = Some 100\<rparr>)
           [5, 6, 7, 8, 11]"

text \<open>The two summary rows of the specification's example, and the integer a total holds.\<close>

definition summary_example :: "summary_row list" where
  "summary_example =
     [\<lparr>s_provider = PStr ''Trust A'', apc_missing_days = PInt 0, op_missing_days = PInt 0,
       ecds_missing_days = PInt 0, total_missing_submissions = PInt 0,
       action_required = PStr ''No''\<rparr>,
      \<lparr>s_provider = PStr ''Trust B'', apc_missing_days = PInt 2, op_missing_days = PInt 0,
       ecds_missing_days = PInt 0, total_missing_submissions = PInt 2,
       action_required = PStr ''Yes''\<rparr>]"

definition total_count :: "summary_row \<Rightarrow> int" where
  "total_count r = (case total_missing_submissions r of PInt n \<Rightarrow> n | _ \<Rightarrow> 0)"

section \<open>Properties\<close>

subsection \<open>Auxiliary facts\<close>

lemma fills_distinct:
  "red_fill \<noteq> green_fill" "red_fill \<noteq> yellow_fill" "red_fill \<noteq> orange_fill"
  "green_fill \<noteq> yellow_fill" "green_fill \<noteq> orange_fill" "yellow_fill \<noteq> orange_fill"
  by (simp_all add: red_fill_def green_fill_def yellow_fill_def orange_fill_def)

lemma qualifying_weekend:
  "valid_values (map records (filter (\<lambda>r. weekday (activity_date r) \<ge> 5)
                                (filter (\<lambda>r. provider r = p) rows)))
     = qualifying rows p True"
  by (induction rows) (auto simp: valid_values_def qualifying_def split: option.splits)

lemma qualifying_weekday:
  "valid_values (map records (filter (\<lambda>r. weekday (activity_date r) < 5)
                                (filter (\<lambda>r. provider r = p) rows)))
     = qualifying rows p False"
  by (induction rows) (auto simp: valid_values_def qualifying_def split: option.splits)

lemma collect_map_Inr:
  "(\<And>x. x \<in> set xs \<Longrightarrow> f x = Inr (g x)) \<Longrightarrow> collect (map f xs) = Inr (map g xs)"
  by (induction xs) simp_all

lemma provider_stats_lookup:
  "p \<in> set ps \<Longrightarrow> provider_stats py rows ps p = Some (stats_of py rows p)"
  unfolding provider_stats_def by (induction ps) auto

lemma to_runtime_CStr [simp]: "to_runtime dt (CStr s) = CStr s"
  by (simp add: to_runtime_def)

lemma to_runtime_Int64 [simp]: "to_runtime Int64 (CInt n) = CNumpy n"
  by (simp add: to_runtime_def)

lemma cell_fill_grid:
  "p \<in> set ps \<Longrightarrow> cell_fill py (provider_stats py rows ps) p d v = Inr (grid_fill py rows p d v)"
  by (simp add: cell_fill_def grid_fill_def provider_stats_lookup Let_def split: cellval.splits)

lemma zip_map_same: "zip xs (map f xs) = map (\<lambda>x. (x, f x)) xs"
  by (induction xs) simp_all

lemma data_row_grid:
  assumes "p \<in> set ps"
  shows "data_row py (provider_stats py rows ps) dt days p (map (\<lambda>d. cell_value py rows p d) days)
           = Inr (p, map (\<lambda>d. \<lparr>cvalue = cell_value py rows p d,
                                 cfill = Some (grid_fill py rows p d
                                                 (to_runtime dt (cell_value py rows p d)))\<rparr>) days)"
proof -
  have "collect (map (\<lambda>(d, v). case cell_fill py (provider_stats py rows ps) p d (to_runtime dt v) of
                                      Inl e \<Rightarrow> Inl e
                                    | Inr f \<Rightarrow> Inr \<lparr>cvalue = v, cfill = Some f\<rparr>)
                        (map (\<lambda>d. (d, cell_value py rows p d)) days))
        = Inr (map (\<lambda>d. \<lparr>cvalue = cell_value py rows p d,
                            cfill = Some (grid_fill py rows p d
                                            (to_runtime dt (cell_value py rows p d)))\<rparr>) days)"
    unfolding map_map
    by (rule collect_map_Inr) (simp add: cell_fill_grid [OF assms])
  then show ?thesis
    by (simp add: data_row_def zip_map_same)
qed

lemma render_dtype:
  "frame_dtype (map (\<lambda>l. map (\<lambda>p. map_status py (of_records (pivot_cell rows p l))) ps)
                    (map strftime days))
     = frame_dtype (map (\<lambda>d. map (\<lambda>p. cell_value py rows p d) ps) days)"
  by (simp add: comp_def cell_value_def)

lemma render_pivot_Inr:
  assumes "distinct (map (\<lambda>r. (provider r, strftime (activity_date r))) rows)"
    and "w \<le> Suc (length (day_order rows))"
  shows "render_pivot py w rows =
           Inr \<lparr>weekday_row = \<lparr>cvalue = CStr [], cfill = None\<rparr> #
                   map (\<lambda>d. \<lparr>cvalue = CStr (weekday_label d),
                              cfill = (if weekday d \<ge> 5 then Some grey_fill else None)\<rparr>) (day_order rows),
                date_row = \<lparr>cvalue = CStr ''Provider'', cfill = None\<rparr> #
                   map (\<lambda>d. \<lparr>cvalue = CStr (strftime d),
                              cfill = (if weekday d \<ge> 5 then Some grey_fill else None)\<rparr>) (day_order rows),
                data_rows = map (\<lambda>p. (p, map (grid_cell py rows p) (day_order rows))) (providers rows)\<rparr>"
proof -
  let ?ps = "providers rows" and ?days = "day_order rows"
  let ?dt = "frame_dtype (map (\<lambda>l. map (\<lambda>p. map_status py (of_records (pivot_cell rows p l))) ?ps)
                              (map strftime ?days))"
  have dt: "?dt = grid_dtype py rows"
    unfolding render_dtype by (simp add: grid_dtype_def)
  have rows_ok: "collect (map (\<lambda>(p, vals). data_row py (provider_stats py rows ?ps) ?dt ?days p vals)
           (zip ?ps (map (map (\<lambda>v. map_status py (of_records v)))
                      (map (\<lambda>p. map (pivot_cell rows p) (map strftime ?days)) ?ps))))
        = Inr (map (\<lambda>p. (p, map (grid_cell py rows p) ?days)) ?ps)"
  proof -
    have "collect (map (\<lambda>p. data_row py (provider_stats py rows ?ps) (grid_dtype py rows) ?days p
                                (map (\<lambda>d. cell_value py rows p d) ?days)) ?ps)
            = Inr (map (\<lambda>p. (p, map (grid_cell py rows p) ?days)) ?ps)"
      by (rule collect_map_Inr) (simp add: data_row_grid grid_cell_def)
    then show ?thesis
      unfolding dt by (simp add: zip_map_same comp_def cell_value_def)
  qed
  show ?thesis
    using assms rows_ok
    by (simp add: render_pivot_def pivot_def header_cells_def Let_def zip_map_same comp_def)
qed

lemma render_pivot_Inr_D:
  assumes "render_pivot py w rows = Inr blk"
  shows "distinct (map (\<lambda>r. (provider r, strftime (activity_date r))) rows)
       \<and> w \<le> Suc (length (day_order rows))"
  using assms
  by (auto simp: render_pivot_def pivot_def header_cells_def Let_def split: if_splits sum.splits)


lemma digit_inj: "a < 10 \<Longrightarrow> b < 10 \<Longrightarrow> digit a = digit b \<Longrightarrow> a = b"
proof -
  assume a: "a < 10" and b: "b < 10" and e: "digit a = digit b"
  from a have "a \<in> {0,1,2,3,4,5,6,7,8,9}" by auto
  moreover from b have "b \<in> {0,1,2,3,4,5,6,7,8,9}" by auto
  ultimately show ?thesis using e by (auto simp: digit_def)
qed

lemma div_div_10: "(a::nat) div 100 div 10 = a div 1000" "(a::nat) div 10 div 10 = a div 100"
  by (simp_all add: div_mult2_eq)

lemma four_digits:
  assumes "(a::nat) div 1000 = b div 1000" "a div 100 mod 10 = b div 100 mod 10"
    "a div 10 mod 10 = b div 10 mod 10" "a mod 10 = b mod 10"
  shows "a = b"
proof -
  have s: "x = x div 10 * 10 + x mod 10" for x :: nat by simp
  have "a div 100 = a div 1000 * 10 + a div 100 mod 10"
    using s [of "a div 100"] by (simp only: div_div_10)
  moreover have "b div 100 = b div 1000 * 10 + b div 100 mod 10"
    using s [of "b div 100"] by (simp only: div_div_10)
  ultimately have h: "a div 100 = b div 100" using assms(1,2) by simp
  have "a div 10 = a div 100 * 10 + a div 10 mod 10"
    using s [of "a div 10"] by (simp only: div_div_10)
  moreover have "b div 10 = b div 100 * 10 + b div 10 mod 10"
    using s [of "b div 10"] by (simp only: div_div_10)
  ultimately have t: "a div 10 = b div 10" using h assms(3) by simp
  show ?thesis using s [of a] s [of b] t assms(4) by simp
qed

lemma two_digits:
  assumes "(a::nat) div 10 = b div 10" "a mod 10 = b mod 10"
  shows "a = b"
proof -
  have s: "x = x div 10 * 10 + x mod 10" for x :: nat by simp
  show ?thesis using s [of a] s [of b] assms by simp
qed

lemma pad2_inj:
  assumes "a < 100" "b < 100" "pad2 a = pad2 b"
  shows "a = b"
proof -
  have "digit (a div 10) = digit (b div 10)" "digit (a mod 10) = digit (b mod 10)"
    using assms(3) by (simp_all add: pad2_def)
  moreover have "a div 10 < 10" "b div 10 < 10" using assms(1,2) by simp_all
  ultimately have "a div 10 = b div 10" "a mod 10 = b mod 10"
    by (auto intro: digit_inj)
  then show ?thesis by (rule two_digits)
qed

lemma pad4_inj:
  assumes "a < 10000" "b < 10000" "pad4 a = pad4 b"
  shows "a = b"
proof -
  have "digit (a div 1000) = digit (b div 1000)" "digit (a div 100 mod 10) = digit (b div 100 mod 10)"
    "digit (a div 10 mod 10) = digit (b div 10 mod 10)" "digit (a mod 10) = digit (b mod 10)"
    using assms(3) by (simp_all add: pad4_def)
  moreover have "a div 1000 < 10" "b div 1000 < 10" using assms(1,2) by simp_all
  ultimately have "a div 1000 = b div 1000" "a div 100 mod 10 = b div 100 mod 10"
    "a div 10 mod 10 = b div 10 mod 10" "a mod 10 = b mod 10"
    by (auto intro: digit_inj)
  then show ?thesis by (rule four_digits)
qed

lemma days_in_month_le: "1 \<le> m \<Longrightarrow> m \<le> 12 \<Longrightarrow> days_in_month y m \<le> 31"
proof -
  assume "1 \<le> m" "m \<le> 12"
  let ?l = "[31, 28, 31, 30, 31, 30, 31, 31, 30, 31, 30, 31 :: nat]"
  have "m - 1 < length ?l" using \<open>m \<le> 12\<close> \<open>1 \<le> m\<close> by simp
  then have "?l ! (m - 1) \<in> set ?l" by (rule nth_mem)
  moreover have "\<forall>x \<in> set ?l. x \<le> 31" by simp
  ultimately have "?l ! (m - 1) \<le> 31" by blast
  then show ?thesis by (simp add: days_in_month_def)
qed

lemma strftime_inj:
  assumes "valid_date a" "valid_date b" "strftime a = strftime b"
  shows "a = b"
proof -
  have la: "day a < 100" "month a < 100" "year a < 10000"
    using assms(1) days_in_month_le [of "month a" "year a"] by (auto simp: valid_date_def)
  have lb: "day b < 100" "month b < 100" "year b < 10000"
    using assms(2) days_in_month_le [of "month b" "year b"] by (auto simp: valid_date_def)
  have len: "length (pad2 n) = 2" for n by (simp add: pad2_def)
  from assms(3) have "pad2 (day a) = pad2 (day b)" "pad2 (month a) = pad2 (month b)"
    "pad4 (year a) = pad4 (year b)"
    by (simp_all add: strftime_def len)
  then have "day a = day b" "month a = month b" "year a = year b"
    using la lb by (auto intro: pad2_inj pad4_inj)
  then show ?thesis by (simp add: date.expand)
qed

lemma filter_distinct_key:
  "distinct (map f xs) \<Longrightarrow> x \<in> set xs \<Longrightarrow> filter (\<lambda>y. f y = f x) xs = [x]"
proof (induction xs)
  case Nil
  then show ?case by simp
next
  case (Cons a xs)
  show ?case
  proof (cases "a = x")
    case True
    have "f x \<notin> f ` set xs" using Cons.prems True by simp
    then have "\<forall>y \<in> set xs. f y \<noteq> f x" by (metis imageI)
    then have "filter (\<lambda>y. f y = f x) xs = []"
      by (simp add: filter_empty_conv)
    then show ?thesis using True by simp
  next
    case False
    then have "x \<in> set xs" using Cons.prems by simp
    moreover have "f a \<noteq> f x" using Cons.prems \<open>x \<in> set xs\<close> by auto
    ultimately show ?thesis using Cons by simp
  qed
qed

lemma pivot_cell_present:
  assumes "distinct (map (\<lambda>r. (provider r, strftime (activity_date r))) rows)" and "r \<in> set rows"
  shows "pivot_cell rows (provider r) (strftime (activity_date r)) = records r"
proof -
  have "filter (\<lambda>y. (provider y, strftime (activity_date y)) = (provider r, strftime (activity_date r))) rows = [r]"
    using assms by (rule filter_distinct_key)
  then show ?thesis by (simp add: pivot_cell_def)
qed

lemma pivot_cell_absent:
  assumes "\<not> (\<exists>r \<in> set rows. provider r = p \<and> strftime (activity_date r) = l)"
  shows "pivot_cell rows p l = None"
proof -
  have "filter (\<lambda>r. provider r = p \<and> strftime (activity_date r) = l) rows = []"
    using assms by (auto simp: filter_empty_conv)
  then show ?thesis by (simp add: pivot_cell_def)
qed

lemma label_keys_distinct:
  assumes "distinct (map (\<lambda>r. (provider r, activity_date r)) rows)"
    and "\<forall>r \<in> set rows. valid_date (activity_date r)"
  shows "distinct (map (\<lambda>r. (provider r, strftime (activity_date r))) rows)"
proof -
  have k: "inj_on (\<lambda>r. (provider r, activity_date r)) (set rows)"
    using assms(1) by (simp add: distinct_map)
  have "inj_on (\<lambda>r. (provider r, strftime (activity_date r))) (set rows)"
  proof (rule inj_onI)
    fix x y
    assume x: "x \<in> set rows" and y: "y \<in> set rows"
      and e: "(provider x, strftime (activity_date x)) = (provider y, strftime (activity_date y))"
    have "valid_date (activity_date x)" "valid_date (activity_date y)"
      using assms(2) x y by simp_all
    then have "activity_date x = activity_date y"
      using e by (auto intro: strftime_inj)
    moreover have "provider x = provider y" using e by simp
    ultimately have "(provider x, activity_date x) = (provider y, activity_date y)" by simp
    with k x y show "x = y" by (auto dest: inj_onD)
  qed
  moreover have "distinct rows" using assms(1) by (simp add: distinct_map)
  ultimately show ?thesis by (simp add: distinct_map)
qed

lemma providers_facts:
  "sorted (providers rows)" "distinct (providers rows)" "set (providers rows) = provider ` set rows"
  by (simp_all add: providers_def)

lemma day_order_facts:
  "sorted (map toordinal (day_order rows))" "distinct (day_order rows)"
  "set (day_order rows) = activity_date ` set rows"
  by (simp_all add: day_order_def)

subsection \<open>Values that do not convert\<close>

text \<open>
  Claim C9. A value that is present (not None, not NaN) and on which \<^verbatim>\<open>float\<close> or
  \<^verbatim>\<open>int\<close> raises is mapped to \<^verbatim>\<open>"MISSING"\<close>, whatever the error, and the cell is
  then filled red in every environment: \<^verbatim>\<open>map_status\<close> itself never raises.
\<close>

theorem map_status_unconvertible:
  assumes "\<not> isna v" and "py_float py v = Inl e \<or> py_int py v = Inl e"
  shows "map_status py v = CStr ''MISSING'' \<and> cell_fill env pstats p d (map_status py v) = Inr red_fill"
proof -
  have "map_status py v = CStr ''MISSING''"
    using assms by (auto simp: map_status_def split: sum.splits)
  then show ?thesis by (simp add: cell_fill_def)
qed

theorem map_status_unconvertible_witness:
  "map_status \<lparr>str_float = (\<lambda>s. Inl ValueError), str_int = (\<lambda>s. Inl ValueError)\<rparr> (PStr ''n/a'')
     = CStr ''MISSING''
   \<and> map_status \<lparr>str_float = (\<lambda>s. Inl ValueError), str_int = (\<lambda>s. Inl ValueError)\<rparr> (PFloat FInf)
     = CStr ''MISSING''"
proof -
  let ?py = "\<lparr>str_float = (\<lambda>s. Inl ValueError), str_int = (\<lambda>s. Inl ValueError)\<rparr>"
  have a: "\<not> isna (PStr ''n/a'')" and b: "\<not> isna (PFloat FInf)"
    by (simp_all add: isna_def)
  have c: "py_float ?py (PStr ''n/a'') = Inl ValueError \<or> py_int ?py (PStr ''n/a'') = Inl ValueError"
    by (simp add: py_float_def)
  have d: "py_float ?py (PFloat FInf) = Inl OverflowError \<or> py_int ?py (PFloat FInf) = Inl OverflowError"
    by (simp add: py_int_def)
  show ?thesis
    using map_status_unconvertible [OF a c] map_status_unconvertible [OF b d] by simp
qed

subsection \<open>Facts about the small frame and the rendered block\<close>

lemma example_providers: "providers example_rows = [''A'', ''B'']"
  by (simp add: providers_def example_rows_def)

lemma example_day_order: "day_order example_rows = [Date 2024 1 1, Date 2024 1 2, Date 2024 1 6]"
  by (simp add: day_order_def example_rows_def toordinal_def days_before_year_def
        days_before_month_def is_leap_def)

lemma example_valid: "\<forall>r \<in> set example_rows. valid_date (activity_date r)"
  by (simp add: example_rows_def valid_date_def days_in_month_def is_leap_def)

lemma example_distinct: "distinct (map (\<lambda>r. (provider r, activity_date r)) example_rows)"
  by (simp add: example_rows_def)

lemma record_eta: "\<lparr>provider = provider a, activity_date = activity_date a, records = records a\<rparr> = a"
  by (cases a) simp

lemma day_of_to_datetime [simp]: "day_of (to_datetime v) = day_of v"
  by (cases v) (simp_all add: day_of_def to_datetime_def)

lemma base_frame_of [simp]: "base (frame_of rows) = rows"
  by (induction rows)
     (simp_all add: frame_of_def query_snowflake_activity_def base_def Let_def day_of_def
        to_datetime_def record_eta)

lemma build_pivot_table_snd: "snd (build_pivot_table py w df) = render_pivot py w (base df)"
  by (simp add: build_pivot_table_def Let_def base_def comp_def)

lemma example_renders: "\<exists>blk. snd (build_pivot_table py 1 example_frame) = Inr blk"
proof -
  have "distinct (map (\<lambda>r. (provider r, strftime (activity_date r))) example_rows)"
    using example_distinct example_valid by (rule label_keys_distinct)
  then show ?thesis
    by (simp add: build_pivot_table_snd example_frame_def render_pivot_Inr)
qed


lemma build_pivot_table_block:
  assumes "snd (build_pivot_table py w df) = Inr blk"
  shows "weekday_row blk = \<lparr>cvalue = CStr [], cfill = None\<rparr> #
           map (\<lambda>d. \<lparr>cvalue = CStr (weekday_label d),
                      cfill = (if weekday d \<ge> 5 then Some grey_fill else None)\<rparr>) (day_order (base df))"
    and "date_row blk = \<lparr>cvalue = CStr ''Provider'', cfill = None\<rparr> #
           map (\<lambda>d. \<lparr>cvalue = CStr (strftime d),
                      cfill = (if weekday d \<ge> 5 then Some grey_fill else None)\<rparr>) (day_order (base df))"
    and "data_rows blk =
           map (\<lambda>p. (p, map (grid_cell py (base df) p) (day_order (base df)))) (providers (base df))"
    and "distinct (map (\<lambda>r. (provider r, strftime (activity_date r))) (base df))"
    and "w \<le> Suc (length (day_order (base df)))"
proof -
  have r: "render_pivot py w (base df) = Inr blk"
    using assms by (simp add: build_pivot_table_snd)
  note ok = render_pivot_Inr_D [OF r]
  show "distinct (map (\<lambda>r. (provider r, strftime (activity_date r))) (base df))"
    and "w \<le> Suc (length (day_order (base df)))"
    using ok by simp_all
  note e = render_pivot_Inr [OF conjunct1 [OF ok] conjunct2 [OF ok], of py]
  show "weekday_row blk = \<lparr>cvalue = CStr [], cfill = None\<rparr> #
           map (\<lambda>d. \<lparr>cvalue = CStr (weekday_label d),
                      cfill = (if weekday d \<ge> 5 then Some grey_fill else None)\<rparr>) (day_order (base df))"
    and "date_row blk = \<lparr>cvalue = CStr ''Provider'', cfill = None\<rparr> #
           map (\<lambda>d. \<lparr>cvalue = CStr (strftime d),
                      cfill = (if weekday d \<ge> 5 then Some grey_fill else None)\<rparr>) (day_order (base df))"
    and "data_rows blk =
           map (\<lambda>p. (p, map (grid_cell py (base df) p) (day_order (base df)))) (providers (base df))"
    using e r by auto
qed

lemma grid_cell_at:
  assumes "snd (build_pivot_table py w df) = Inr blk"
    and "i < length (providers (base df))" and "j < length (day_order (base df))"
  shows "snd (data_rows blk ! i) ! j
           = grid_cell py (base df) (providers (base df) ! i) (day_order (base df) ! j)"
  using assms(2,3) by (simp add: build_pivot_table_block(3) [OF assms(1)])

lemma cell_value_absent:
  assumes "\<forall>r \<in> set rows. valid_date (activity_date r)" and "d \<in> activity_date ` set rows"
    and "\<not> (\<exists>r \<in> set rows. provider r = p \<and> activity_date r = d)"
  shows "cell_value py rows p d = CStr ''MISSING''"
proof -
  have vd: "valid_date d" using assms(1,2) by auto
  have "\<not> (\<exists>r \<in> set rows. provider r = p \<and> strftime (activity_date r) = strftime d)"
  proof
    assume "\<exists>r \<in> set rows. provider r = p \<and> strftime (activity_date r) = strftime d"
    then obtain r where r: "r \<in> set rows" "provider r = p" "strftime (activity_date r) = strftime d"
      by blast
    have "valid_date (activity_date r)" using assms(1) r(1) by simp
    then have "activity_date r = d" using vd r(3) by (rule strftime_inj)
    with r assms(3) show False by blast
  qed
  then have "pivot_cell rows p (strftime d) = None" by (rule pivot_cell_absent)
  then show ?thesis by (simp add: cell_value_def of_records_def map_status_def isna_def)
qed

lemma cell_value_present:
  assumes "distinct (map (\<lambda>r. (provider r, strftime (activity_date r))) rows)" and "r \<in> set rows"
  shows "cell_value py rows (provider r) (activity_date r) = map_status py (of_records (records r))"
  by (simp add: cell_value_def pivot_cell_present [OF assms])

lemma map_status_zero: "map_status py (of_records (Some 0)) = CStr ''MISSING''"
  by (simp add: map_status_def of_records_def isna_def py_float_def)

lemma map_status_nan: "map_status py (of_records None) = CStr ''MISSING''"
  by (simp add: map_status_def of_records_def isna_def)

subsection \<open>Missing cells\<close>

text \<open>
  Claim C3. In a rendered grid, a cell whose provider has no row for the column's day,
  or whose row carries the record count 0, holds \<^verbatim>\<open>"MISSING"\<close> and is filled red. No
  baseline enters: the frame is arbitrary, and the colouring of a \<^verbatim>\<open>"MISSING"\<close> cell is
  red under every table of baselines and in every environment.
\<close>

theorem missing_cells_red:
  assumes "snd (build_pivot_table py w df) = Inr blk"
    and "\<forall>r \<in> set (base df). valid_date (activity_date r)"
    and "i < length (providers (base df))" and "j < length (day_order (base df))"
    and "(\<not> (\<exists>r \<in> set (base df). provider r = providers (base df) ! i
                                   \<and> activity_date r = day_order (base df) ! j))
       \<or> (\<exists>r \<in> set (base df). provider r = providers (base df) ! i
                                \<and> activity_date r = day_order (base df) ! j \<and> records r = Some 0)"
  shows "snd (data_rows blk ! i) ! j = \<lparr>cvalue = CStr ''MISSING'', cfill = Some red_fill\<rparr>
       \<and> cell_fill env pstats p d (CStr ''MISSING'') = Inr red_fill"
proof -
  let ?rows = "base df"
  let ?p = "providers ?rows ! i" and ?d = "day_order ?rows ! j"
  have d: "?d \<in> activity_date ` set ?rows"
    using assms(4) day_order_facts(3) [of ?rows] nth_mem by blast
  have v: "cell_value py ?rows ?p ?d = CStr ''MISSING''"
    using assms(5)
  proof
    assume "\<not> (\<exists>r \<in> set ?rows. provider r = ?p \<and> activity_date r = ?d)"
    with assms(2) d show ?thesis by (rule cell_value_absent)
  next
    assume "\<exists>r \<in> set ?rows. provider r = ?p \<and> activity_date r = ?d \<and> records r = Some 0"
    then obtain r where r: "r \<in> set ?rows" "provider r = ?p" "activity_date r = ?d" "records r = Some 0"
      by blast
    show ?thesis
      using cell_value_present [OF build_pivot_table_block(4) [OF assms(1)] r(1), of py] r(2,3,4)
      by (simp add: map_status_zero)
  qed
  have "snd (data_rows blk ! i) ! j = grid_cell py ?rows ?p ?d"
    using assms(1,3,4) by (rule grid_cell_at)
  then show ?thesis
    by (simp add: grid_cell_def v grid_fill_def cell_fill_def)
qed

theorem missing_cells_red_witness:
  "\<exists>blk. snd (build_pivot_table no_parse 1 example_frame) = Inr blk
     \<and> snd (data_rows blk ! 0) ! 1 = \<lparr>cvalue = CStr ''MISSING'', cfill = Some red_fill\<rparr>
     \<and> snd (data_rows blk ! 1) ! 1 = \<lparr>cvalue = CStr ''MISSING'', cfill = Some red_fill\<rparr>"
proof -
  obtain blk where b: "snd (build_pivot_table no_parse 1 example_frame) = Inr blk"
    using example_renders by blast
  have bs: "base example_frame = example_rows" by (simp add: example_frame_def)
  have v: "\<forall>r \<in> set (base example_frame). valid_date (activity_date r)"
    unfolding bs by (rule example_valid)
  have i0: "0 < length (providers (base example_frame))"
    and i1: "1 < length (providers (base example_frame))"
    and j1: "1 < length (day_order (base example_frame))"
    unfolding bs by (simp_all add: example_providers example_day_order)
  have zero: "(\<not> (\<exists>r \<in> set (base example_frame). provider r = providers (base example_frame) ! 0
                   \<and> activity_date r = day_order (base example_frame) ! 1))
       \<or> (\<exists>r \<in> set (base example_frame). provider r = providers (base example_frame) ! 0
                   \<and> activity_date r = day_order (base example_frame) ! 1 \<and> records r = Some 0)"
    unfolding bs example_providers example_day_order by (simp add: example_rows_def)
  have absent: "(\<not> (\<exists>r \<in> set (base example_frame). provider r = providers (base example_frame) ! 1
                   \<and> activity_date r = day_order (base example_frame) ! 1))
       \<or> (\<exists>r \<in> set (base example_frame). provider r = providers (base example_frame) ! 1
                   \<and> activity_date r = day_order (base example_frame) ! 1 \<and> records r = Some 0)"
    unfolding bs example_providers example_day_order by (simp add: example_rows_def)
  show ?thesis
    using b missing_cells_red [OF b v i0 j1 zero] missing_cells_red [OF b v i1 j1 absent]
    by blast
qed

lemma frame_2x2_providers: "providers (base frame_2x2) = [''A'', ''B'']"
  by (simp add: providers_def frame_2x2_def)

lemma frame_2x2_day_order: "day_order (base frame_2x2) = [Date 2024 1 1, Date 2024 1 2]"
  by (simp add: day_order_def frame_2x2_def toordinal_def days_before_year_def
        days_before_month_def is_leap_def)

lemma weekday_lt_7: "weekday d < 7"
  by (simp add: weekday_def)

lemma weekend_iff_name:
  "(weekday d \<ge> 5) = (day_name d = ''Saturday'' \<or> day_name d = ''Sunday'')"
proof -
  have "weekday d \<in> {0, 1, 2, 3, 4, 5, 6}"
    using weekday_lt_7 [of d] by auto
  then show ?thesis
    by (auto simp: day_name_def)
qed

lemma example_base: "base example_frame = example_rows"
  by (simp add: example_frame_def)

subsection \<open>The ordinal follows the calendar\<close>

lemma month_cases:
  assumes "1 \<le> (m::nat)" "m \<le> 12"
  shows "m \<in> {1, 2, 3, 4, 5, 6, 7, 8, 9, 10, 11, 12}"
  using assms by (simp add: numeral_eq_Suc le_Suc_eq)

lemma dbm_step:
  assumes "1 \<le> m" "m \<le> 11"
  shows "days_before_month y (Suc m) = days_before_month y m + days_in_month y m"
proof -
  have "m \<in> {1, 2, 3, 4, 5, 6, 7, 8, 9, 10, 11, 12}"
    using assms by (intro month_cases) simp_all
  with assms(2) have "m \<in> {1, 2, 3, 4, 5, 6, 7, 8, 9, 10, 11}" by auto
  then show ?thesis
    by (auto simp: days_before_month_def days_in_month_def)
qed

lemma dbm_mono:
  assumes "1 \<le> m" "m \<le> m'" "m' \<le> 12"
  shows "days_before_month y m \<le> days_before_month y m'"
  using assms(2,1,3)
proof (induction m' rule: dec_induct)
  case base
  then show ?case by simp
next
  case (step n)
  then have "days_before_month y (Suc n) = days_before_month y n + days_in_month y n"
    by (intro dbm_step) simp_all
  with step show ?case by simp
qed

lemma year_end:
  assumes "1 \<le> m" "m \<le> 12"
  shows "days_before_month y m + days_in_month y m \<le> (if is_leap y then 366 else 365)"
  using month_cases [OF assms]
  by (auto simp: days_before_month_def days_in_month_def)

lemma dby_Suc:
  "days_before_year (Suc (Suc q)) = days_before_year (Suc q) + (if is_leap (Suc q) then 366 else 365)"
proof -
  have le: "q div 100 \<le> q div 4"
    by (simp add: div_le_mono2)
  have "(100::nat) dvd 400" "(4::nat) dvd 100" by simp_all
  then have m1: "Suc q mod 400 = 0 \<Longrightarrow> Suc q mod 100 = 0"
    and m2: "Suc q mod 100 = 0 \<Longrightarrow> Suc q mod 4 = 0"
    by (auto simp: mod_eq_0_iff_dvd elim: dvd_trans)
  show ?thesis
    using le m1 m2 by (auto simp: days_before_year_def is_leap_def div_Suc) linarith+
qed


lemma dby_mono:
  assumes "1 \<le> y" "y \<le> y'"
  shows "days_before_year y \<le> days_before_year y'"
  using assms(2,1)
proof (induction y' rule: dec_induct)
  case base
  then show ?case by simp
next
  case (step n)
  then obtain q where "n = Suc q" by (cases n) auto
  then show ?case using step dby_Suc [of q] by simp
qed

lemma within_year:
  assumes "valid_date d"
  shows "days_before_month (year d) (month d) + day d \<le> (if is_leap (year d) then 366 else 365)"
    and "1 \<le> days_before_month (year d) (month d) + day d"
proof -
  have m: "1 \<le> month d" "month d \<le> 12" and dy: "1 \<le> day d" "day d \<le> days_in_month (year d) (month d)"
    using assms by (simp_all add: valid_date_def)
  show "days_before_month (year d) (month d) + day d \<le> (if is_leap (year d) then 366 else 365)"
    using year_end [OF m, of "year d"] dy(2) by (simp split: if_splits)
  show "1 \<le> days_before_month (year d) (month d) + day d"
    using dy(1) by simp
qed

lemma toordinal_strict:
  assumes "valid_date a" "valid_date b" "before a b"
  shows "toordinal a < toordinal b"
proof -
  consider (y) "year a < year b"
    | (m) "year a = year b" "month a < month b"
    | (d) "year a = year b" "month a = month b" "day a < day b"
    using assms(3) by (auto simp: before_def)
  then show ?thesis
  proof cases
    case y
    obtain q where q: "year a = Suc q"
      using assms(1) by (cases "year a") (auto simp: valid_date_def)
    have "toordinal a \<le> days_before_year (Suc q) + (if is_leap (Suc q) then 366 else 365)"
      using within_year(1) [OF assms(1)] q by (simp add: toordinal_def)
    also have "\<dots> = days_before_year (Suc (Suc q))" by (simp add: dby_Suc)
    also have "\<dots> \<le> days_before_year (year b)"
      using y q by (intro dby_mono) simp_all
    also have "\<dots> < toordinal b"
      using within_year(2) [OF assms(2)] unfolding toordinal_def by linarith
    finally show ?thesis .
  next
    case m
    have ma: "1 \<le> month a" "month a \<le> 11" and mb: "month b \<le> 12"
      using assms(1,2) m(2) by (simp_all add: valid_date_def)
    have "days_before_month (year a) (month a) + day a
            \<le> days_before_month (year a) (month a) + days_in_month (year a) (month a)"
      using assms(1) by (simp add: valid_date_def)
    also have "\<dots> = days_before_month (year a) (Suc (month a))"
      using dbm_step [OF ma] by simp
    also have "\<dots> \<le> days_before_month (year a) (month b)"
      using m(2) mb by (intro dbm_mono) simp_all
    also have "\<dots> < days_before_month (year a) (month b) + day b"
      using assms(2) by (simp add: valid_date_def)
    finally show ?thesis using m(1) by (simp add: toordinal_def)
  next
    case d
    then show ?thesis by (simp add: toordinal_def)
  qed
qed

lemma before_total: "a \<noteq> b \<Longrightarrow> before a b \<or> before b a"
  by (cases a; cases b) (auto simp: before_def)

lemma toordinal_inj:
  assumes "valid_date a" "valid_date b" "toordinal a = toordinal b"
  shows "a = b"
proof (rule ccontr)
  assume "a \<noteq> b"
  then have "before a b \<or> before b a" by (rule before_total)
  then show False
    using toordinal_strict [OF assms(1,2)] toordinal_strict [OF assms(2,1)] assms(3) by auto
qed


lemma day_order_chronological:
  assumes "\<forall>r \<in> set rows. valid_date (activity_date r)"
  shows "sorted_wrt before (day_order rows)"
proof -
  let ?ds = "day_order rows"
  have s: "sorted_wrt (\<lambda>a b. toordinal a \<le> toordinal b) ?ds"
    using day_order_facts(1) [of rows] by (simp add: sorted_map)
  have v: "valid_date d" if "d \<in> set ?ds" for d
    using that assms day_order_facts(3) [of rows] by auto
  show ?thesis
    unfolding sorted_wrt_iff_nth_less
  proof (intro allI impI)
    fix i j
    assume ij: "i < j" and j: "j < length ?ds"
    have le: "toordinal (?ds ! i) \<le> toordinal (?ds ! j)"
      using s ij j by (simp add: sorted_wrt_iff_nth_less)
    have ne: "?ds ! i \<noteq> ?ds ! j"
      using day_order_facts(2) [of rows] ij j by (simp add: nth_eq_iff_index_eq)
    have vi: "valid_date (?ds ! i)" and vj: "valid_date (?ds ! j)"
      using ij j by (simp_all add: v)
    from ne have "before (?ds ! i) (?ds ! j) \<or> before (?ds ! j) (?ds ! i)"
      by (rule before_total)
    then show "before (?ds ! i) (?ds ! j)"
      using toordinal_strict [OF vj vi] le by auto
  qed
qed

subsection \<open>The shape of the grid\<close>

text \<open>
  Claim C4. For a long-format frame (one row per provider and day, the days valid
  calendar days) rendered on a sheet no wider than the grid, the block has one data row
  per distinct provider, in sorted order, and one column per distinct day, oldest first,
  headed by the day's label. The cell of a provider and a day holds what \<^verbatim>\<open>map_status\<close>
  makes of that row's record count, and where the frame has no row for the pair the cell
  holds \<^verbatim>\<open>"MISSING"\<close> and is red.
\<close>

theorem pivot_grid_shape:
  assumes "distinct (map (\<lambda>r. (provider r, activity_date r)) (base df))"
    and "\<forall>r \<in> set (base df). valid_date (activity_date r)"
    and "w \<le> Suc (length (day_order (base df)))"
  shows "\<exists>blk. snd (build_pivot_table py w df) = Inr blk
     \<and> map fst (data_rows blk) = providers (base df)
     \<and> sorted (providers (base df)) \<and> distinct (providers (base df))
     \<and> set (providers (base df)) = provider ` set (base df)
     \<and> map cvalue (tl (date_row blk)) = map (\<lambda>d. CStr (strftime d)) (day_order (base df))
     \<and> sorted_wrt before (day_order (base df)) \<and> distinct (day_order (base df))
     \<and> set (day_order (base df)) = activity_date ` set (base df)
     \<and> (\<forall>i < length (providers (base df)).
           length (snd (data_rows blk ! i)) = length (day_order (base df))
         \<and> (\<forall>j < length (day_order (base df)).
               (\<forall>r \<in> set (base df).
                   provider r = providers (base df) ! i \<and> activity_date r = day_order (base df) ! j
                   \<longrightarrow> cvalue (snd (data_rows blk ! i) ! j) = map_status py (of_records (records r)))
             \<and> ((\<not> (\<exists>r \<in> set (base df). provider r = providers (base df) ! i
                                          \<and> activity_date r = day_order (base df) ! j))
                   \<longrightarrow> snd (data_rows blk ! i) ! j
                         = \<lparr>cvalue = CStr ''MISSING'', cfill = Some red_fill\<rparr>)))"
proof -
  let ?rows = "base df"
  have k: "distinct (map (\<lambda>r. (provider r, strftime (activity_date r))) ?rows)"
    using assms(1,2) by (rule label_keys_distinct)
  obtain blk where b: "snd (build_pivot_table py w df) = Inr blk"
    using render_pivot_Inr [OF k assms(3), of py] by (simp add: build_pivot_table_snd)
  note blk = build_pivot_table_block [OF b]
  have cells: "length (snd (data_rows blk ! i)) = length (day_order ?rows)
         \<and> (\<forall>j < length (day_order ?rows).
               (\<forall>r \<in> set ?rows.
                   provider r = providers ?rows ! i \<and> activity_date r = day_order ?rows ! j
                   \<longrightarrow> cvalue (snd (data_rows blk ! i) ! j) = map_status py (of_records (records r)))
             \<and> ((\<not> (\<exists>r \<in> set ?rows. provider r = providers ?rows ! i
                                          \<and> activity_date r = day_order ?rows ! j))
                   \<longrightarrow> snd (data_rows blk ! i) ! j
                         = \<lparr>cvalue = CStr ''MISSING'', cfill = Some red_fill\<rparr>))"
    if i: "i < length (providers ?rows)" for i
  proof (intro conjI allI impI ballI)
    show "length (snd (data_rows blk ! i)) = length (day_order ?rows)"
      using i by (simp add: blk(3))
  next
    fix j r
    assume j: "j < length (day_order ?rows)" and r: "r \<in> set ?rows"
      and e: "provider r = providers ?rows ! i \<and> activity_date r = day_order ?rows ! j"
    have "snd (data_rows blk ! i) ! j = grid_cell py ?rows (provider r) (activity_date r)"
      using grid_cell_at [OF b i j] e by simp
    then show "cvalue (snd (data_rows blk ! i) ! j) = map_status py (of_records (records r))"
      by (simp add: grid_cell_def cell_value_present [OF k r])
  next
    fix j
    assume j: "j < length (day_order ?rows)"
      and n: "\<not> (\<exists>r \<in> set ?rows. provider r = providers ?rows ! i \<and> activity_date r = day_order ?rows ! j)"
    then have "(\<not> (\<exists>r \<in> set ?rows. provider r = providers ?rows ! i
                                   \<and> activity_date r = day_order ?rows ! j))
       \<or> (\<exists>r \<in> set ?rows. provider r = providers ?rows ! i
                                \<and> activity_date r = day_order ?rows ! j \<and> records r = Some 0)"
      by blast
    have d: "day_order ?rows ! j \<in> activity_date ` set ?rows"
      using j day_order_facts(3) [of ?rows] nth_mem by blast
    have "cell_value py ?rows (providers ?rows ! i) (day_order ?rows ! j) = CStr ''MISSING''"
      using assms(2) d n by (rule cell_value_absent)
    then show "snd (data_rows blk ! i) ! j = \<lparr>cvalue = CStr ''MISSING'', cfill = Some red_fill\<rparr>"
      using grid_cell_at [OF b i j] by (simp add: grid_cell_def grid_fill_def)
  qed
  have names: "map fst (data_rows blk) = providers ?rows"
    by (simp add: blk(3) comp_def)
  have labels: "map cvalue (tl (date_row blk)) = map (\<lambda>d. CStr (strftime d)) (day_order ?rows)"
    by (simp add: blk(2) comp_def)
  show ?thesis
    using b names labels providers_facts [of ?rows] day_order_facts [of ?rows]
      day_order_chronological [OF assms(2)] cells
    by blast
qed


theorem pivot_grid_shape_witness:
  "\<exists>blk. snd (build_pivot_table no_parse 1 frame_2x2) = Inr blk
     \<and> map fst (data_rows blk) = [''A'', ''B'']
     \<and> map cvalue (tl (date_row blk)) = [CStr ''01/01/2024'', CStr ''02/01/2024'']
     \<and> length (snd (data_rows blk ! 0)) = 2 \<and> length (snd (data_rows blk ! 1)) = 2
     \<and> cvalue (snd (data_rows blk ! 0) ! 0) = CInt 5
     \<and> snd (data_rows blk ! 1) ! 1 = \<lparr>cvalue = CStr ''MISSING'', cfill = Some red_fill\<rparr>"
proof -
  have h1: "distinct (map (\<lambda>r. (provider r, activity_date r)) (base frame_2x2))"
    by (simp add: frame_2x2_def)
  have h2: "\<forall>r \<in> set (base frame_2x2). valid_date (activity_date r)"
    by (simp add: frame_2x2_def valid_date_def days_in_month_def is_leap_def)
  have h3: "1 \<le> Suc (length (day_order (base frame_2x2)))" by simp
  obtain blk where b: "snd (build_pivot_table no_parse 1 frame_2x2) = Inr blk"
    and names: "map fst (data_rows blk) = providers (base frame_2x2)"
    and labels: "map cvalue (tl (date_row blk)) = map (\<lambda>d. CStr (strftime d)) (day_order (base frame_2x2))"
    and cells: "\<forall>i < length (providers (base frame_2x2)).
           length (snd (data_rows blk ! i)) = length (day_order (base frame_2x2))
         \<and> (\<forall>j < length (day_order (base frame_2x2)).
               (\<forall>r \<in> set (base frame_2x2).
                   provider r = providers (base frame_2x2) ! i
                     \<and> activity_date r = day_order (base frame_2x2) ! j
                   \<longrightarrow> cvalue (snd (data_rows blk ! i) ! j) = map_status no_parse (of_records (records r)))
             \<and> ((\<not> (\<exists>r \<in> set (base frame_2x2). provider r = providers (base frame_2x2) ! i
                                          \<and> activity_date r = day_order (base frame_2x2) ! j))
                   \<longrightarrow> snd (data_rows blk ! i) ! j
                         = \<lparr>cvalue = CStr ''MISSING'', cfill = Some red_fill\<rparr>))"
    using pivot_grid_shape [OF h1 h2 h3, of no_parse] by blast
  have l: "map (\<lambda>d. CStr (strftime d)) (day_order (base frame_2x2))
             = [CStr ''01/01/2024'', CStr ''02/01/2024'']"
    unfolding frame_2x2_day_order by (simp add: strftime_def pad2_def pad4_def digit_def)
  have len: "length (snd (data_rows blk ! 0)) = 2" "length (snd (data_rows blk ! 1)) = 2"
    using cells by (simp_all add: frame_2x2_providers frame_2x2_day_order)
  have "\<lparr>provider = ''A'', activity_date = Date 2024 1 1, records = Some 5\<rparr> \<in> set (base frame_2x2)"
    by (simp add: frame_2x2_def)
  moreover have "(0::nat) < length (providers (base frame_2x2))" "(0::nat) < length (day_order (base frame_2x2))"
    by (simp_all add: frame_2x2_providers frame_2x2_day_order)
  ultimately have "cvalue (snd (data_rows blk ! 0) ! 0)
      = map_status no_parse (of_records (records \<lparr>provider = ''A'', activity_date = Date 2024 1 1, records = Some 5\<rparr>))"
    using cells by (simp add: frame_2x2_providers frame_2x2_day_order)
  then have a: "cvalue (snd (data_rows blk ! 0) ! 0) = CInt 5"
    by (simp add: map_status_def of_records_def isna_def py_float_def py_int_def trunc_def)
  have "\<not> (\<exists>r \<in> set (base frame_2x2). provider r = providers (base frame_2x2) ! 1
                                          \<and> activity_date r = day_order (base frame_2x2) ! 1)"
    unfolding frame_2x2_providers frame_2x2_day_order by (simp add: frame_2x2_def)
  moreover have "(1::nat) < length (providers (base frame_2x2))" "(1::nat) < length (day_order (base frame_2x2))"
    by (simp_all add: frame_2x2_providers frame_2x2_day_order)
  ultimately have m: "snd (data_rows blk ! 1) ! 1 = \<lparr>cvalue = CStr ''MISSING'', cfill = Some red_fill\<rparr>"
    using cells by blast
  show ?thesis
    using b names labels len a m by (simp add: frame_2x2_providers l)
qed


lemma summary_cells_int:
  assumes "total_missing_submissions r = PInt n"
  shows "summary_cells py r =
           Inr (map (\<lambda>v. \<lparr>svalue = v, sfill = Some (if n > 0 then red_fill else green_fill)\<rparr>)
                  [s_provider r, apc_missing_days r, op_missing_days r, ecds_missing_days r,
                   total_missing_submissions r, action_required r])"
  using assms by (simp add: summary_cells_def py_int_def Let_def)

lemma main_block_guard:
  "df_summary = [] \<or> base df_inpatient = [] \<or> base df_op = [] \<or> base df_ecds = [] \<Longrightarrow>
   main_block py df_summary df_inpatient df_op df_ecds
     = \<lparr>exit_code = 0, file_written = False, raised = None\<rparr>"
  by (simp add: main_block_def)

subsection \<open>Summary rows\<close>

text \<open>
  Claim C6. When every total-missing count of the summary frame is an integer, the table
  renders, and each of its rows has all six cells filled red if the row's count is
  greater than zero and all six filled green otherwise.
\<close>

theorem summary_row_fill:
  assumes "\<forall>r \<in> set df. \<exists>n. total_missing_submissions r = PInt n"
  shows "\<exists>blk. snd (build_summary_table py df) = Inr blk
     \<and> length (summary_rows blk) = length df
     \<and> (\<forall>i < length df. \<forall>n. total_missing_submissions (df ! i) = PInt n \<longrightarrow>
           length (summary_rows blk ! i) = 6
         \<and> (n > 0 \<longrightarrow> (\<forall>c \<in> set (summary_rows blk ! i). sfill c = Some red_fill))
         \<and> (\<not> n > 0 \<longrightarrow> (\<forall>c \<in> set (summary_rows blk ! i). sfill c = Some green_fill)))"
proof -
  let ?g = "\<lambda>r. map (\<lambda>v. \<lparr>svalue = v, sfill = Some (if total_count r > 0 then red_fill else green_fill)\<rparr>)
                  [s_provider r, apc_missing_days r, op_missing_days r, ecds_missing_days r,
                   total_missing_submissions r, action_required r]"
  have "collect (map (summary_cells py) df) = Inr (map ?g df)"
  proof (rule collect_map_Inr)
    fix r assume "r \<in> set df"
    then obtain n where n: "total_missing_submissions r = PInt n" using assms by blast
    then show "summary_cells py r = Inr (?g r)"
      by (simp add: summary_cells_int [OF n] total_count_def)
  qed
  then have b: "snd (build_summary_table py df) =
      Inr \<lparr>header = map (\<lambda>h. \<lparr>svalue = PStr h, sfill = None\<rparr>)
                            [''Provider'', ''APC Missing'', ''OP Missing'', ''ECDS Missing'',
                             ''Total Missing'', ''Action Required''],
               summary_rows = map ?g df\<rparr>"
    by (simp add: build_summary_table_def)
  show ?thesis
    unfolding b by (auto simp: total_count_def)
qed

theorem summary_row_fill_witness:
  "\<exists>blk. snd (build_summary_table no_parse summary_example) = Inr blk
     \<and> (\<forall>c \<in> set (summary_rows blk ! 0). sfill c = Some green_fill)
     \<and> (\<forall>c \<in> set (summary_rows blk ! 1). sfill c = Some red_fill)"
proof -
  have h: "\<forall>r \<in> set summary_example. \<exists>n. total_missing_submissions r = PInt n"
    by (simp add: summary_example_def)
  obtain blk where b: "snd (build_summary_table no_parse summary_example) = Inr blk"
    and c: "\<forall>i < length summary_example. \<forall>n. total_missing_submissions (summary_example ! i) = PInt n \<longrightarrow>
           length (summary_rows blk ! i) = 6
         \<and> (n > 0 \<longrightarrow> (\<forall>c \<in> set (summary_rows blk ! i). sfill c = Some red_fill))
         \<and> (\<not> n > 0 \<longrightarrow> (\<forall>c \<in> set (summary_rows blk ! i). sfill c = Some green_fill))"
    using summary_row_fill [OF h, of no_parse] by blast
  have t0: "total_missing_submissions (summary_example ! 0) = PInt 0"
    and t1: "total_missing_submissions (summary_example ! 1) = PInt 2"
    and l: "0 < length summary_example" "1 < length summary_example"
    by (simp_all add: summary_example_def)
  have "\<forall>c \<in> set (summary_rows blk ! 0). sfill c = Some green_fill"
    using c l(1) t0 by force
  moreover have "\<forall>c \<in> set (summary_rows blk ! 1). sfill c = Some red_fill"
    using c l(2) t1 by force
  ultimately show ?thesis using b by blast
qed

subsection \<open>The launcher\<close>

text \<open>
  Claim C7. The claim is that a run with an empty dataset ends with exit code 0 and no
  file. The block of lines 285 to 314 would do that (\<open>main_block_guard\<close>), but the
  statements of lines 294 and 301 start in column 0 and line 308 is indented again, so
  the module is rejected at line 308 before any statement runs: the run ends with an
  IndentationError and a non-zero status, here with the summary frame empty.
\<close>

theorem script_does_not_compile:
  "check_indent [0] False module_tail = Some 308
   \<and> run_script py [] df_inpatient df_op df_ecds
       = \<lparr>exit_code = 1, file_written = False, raised = Some IndentationError\<rparr>
   \<and> exit_code (run_script py [] df_inpatient df_op df_ecds) \<noteq> 0"
  by (simp add: run_script_def module_tail_def)

subsection \<open>The array behind the grid\<close>

lemma column_dtype_Int64:
  assumes "\<forall>v \<in> set col. \<exists>n. v = CInt n \<and> - (2 ^ 63) \<le> n \<and> n \<le> 2 ^ 63 - 1"
  shows "column_dtype col = Int64"
proof -
  have s: "\<not> list_ex is_str col"
    using assms by (auto simp: list_ex_iff)
  have r: "\<not> list_ex (\<lambda>n. n > 2 ^ 63 - 1) (map int_of col)"
    using assms by (fastforce simp: list_ex_iff)
  have l: "\<not> list_ex (\<lambda>n. n > 2 ^ 64 - 1 \<or> n < - (2 ^ 63)) (map int_of col)"
    using assms by (fastforce simp: list_ex_iff)
  show ?thesis
    using s r l by (simp add: column_dtype_def Let_def)
qed

lemma frame_dtype_Int64:
  assumes "\<forall>col \<in> set columns. column_dtype col = Int64"
  shows "frame_dtype columns = Int64"
  using assms by (auto simp: frame_dtype_def Let_def)

lemma grid_dtype_single_provider:
  assumes k: "distinct (map (\<lambda>r. (provider r, strftime (activity_date r))) rows)"
    and a: "\<forall>r \<in> set rows. provider r = a"
    and n: "\<forall>r \<in> set rows. \<exists>n. map_status py (of_records (records r)) = CInt n
                                    \<and> - (2 ^ 63) \<le> n \<and> n \<le> 2 ^ 63 - 1"
  shows "grid_dtype py rows = Int64"
  unfolding grid_dtype_def
proof (rule frame_dtype_Int64, rule ballI)
  fix col
  assume "col \<in> set (map (\<lambda>d. map (\<lambda>p. cell_value py rows p d) (providers rows)) (day_order rows))"
  then obtain d where d: "d \<in> set (day_order rows)"
    and col: "col = map (\<lambda>p. cell_value py rows p d) (providers rows)"
    by auto
  from d obtain r where r: "r \<in> set rows" "activity_date r = d"
    using day_order_facts(3) [of rows] by auto
  show "column_dtype col = Int64"
  proof (rule column_dtype_Int64, rule ballI)
    fix v
    assume "v \<in> set col"
    then obtain p where p: "p \<in> set (providers rows)" and v: "v = cell_value py rows p d"
      using col by auto
    have "p = a" using p a providers_facts(3) [of rows] by auto
    then have "provider r = p" using a r(1) by simp
    then have "v = map_status py (of_records (records r))"
      using cell_value_present [OF k r(1), of py] r(2) v by simp
    then show "\<exists>n. v = CInt n \<and> - (2 ^ 63) \<le> n \<and> n \<le> 2 ^ 63 - 1"
      using n r(1) by auto
  qed
qed

lemma numpy_cell_green:
  assumes "snd (build_pivot_table py w df) = Inr blk"
    and "i < length (providers (base df))" and "j < length (day_order (base df))"
    and "grid_dtype py (base df) = Int64"
    and "cell_value py (base df) (providers (base df) ! i) (day_order (base df) ! j) = CInt n"
  shows "snd (data_rows blk ! i) ! j = \<lparr>cvalue = CInt n, cfill = Some green_fill\<rparr>"
  using grid_cell_at [OF assms(1,2,3)] assms(4,5)
  by (simp add: grid_cell_def grid_fill_def)

lemma outlier_providers: "providers outlier_rows = [''A'']"
  by (simp add: providers_def outlier_rows_def)

lemma outlier_day_order:
  "day_order outlier_rows =
     [Date 2024 3 4, Date 2024 3 5, Date 2024 3 6, Date 2024 3 7, Date 2024 3 8, Date 2024 3 11,
      Date 2024 3 12, Date 2024 3 13, Date 2024 3 14, Date 2024 3 15, Date 2024 3 18]"
  by (simp add: day_order_def outlier_rows_def toordinal_def days_before_year_def
        days_before_month_def is_leap_def)

lemma outlier_qualifying:
  "qualifying outlier_rows ''A'' False = [10, 10, 10, 10, 10, 10, 10, 10, 10, 10, 1000]"
  by (simp add: qualifying_def outlier_rows_def weekday_def toordinal_def days_before_year_def
        days_before_month_def is_leap_def)

subsection \<open>Baselines in the specification's words\<close>

lemma stats_of_qualifying:
  "stats_of py rows p =
     \<lparr>weekday_stats =
        (if length (qualifying rows p False) > 2
         then Some \<lparr>mean = np_mean py (qualifying rows p False),
                    std = np_std py (qualifying rows p False)\<rparr>
         else None),
      weekend_stats =
        (if length (qualifying rows p True) > 2
         then Some \<lparr>mean = np_mean py (qualifying rows p True),
                    std = np_std py (qualifying rows p True)\<rparr>
         else None)\<rparr>"
  unfolding stats_of_def class_stats_def Let_def qualifying_weekend qualifying_weekday
  by (rule refl)

lemma class_baseline:
  "(if weekday d \<ge> 5 then weekend_stats (stats_of py rows p) else weekday_stats (stats_of py rows p))
     = (if length (qualifying rows p (weekday d \<ge> 5)) > 2
        then Some \<lparr>mean = np_mean py (qualifying rows p (weekday d \<ge> 5)),
                   std = np_std py (qualifying rows p (weekday d \<ge> 5))\<rparr>
        else None)"
  by (simp add: stats_of_qualifying)

lemma no_baseline_green:
  assumes "length (qualifying rows p (weekday d \<ge> 5)) \<le> 2
         \<or> np_std py (qualifying rows p (weekday d \<ge> 5)) = FReal 0"
    and "v \<noteq> CStr ''MISSING''"
  shows "grid_fill py rows p d v = green_fill"
proof -
  have z: "z_fill py (if weekday d \<ge> 5 then weekend_stats (stats_of py rows p)
                      else weekday_stats (stats_of py rows p)) x = green_fill" for x
    unfolding class_baseline using assms(1)
    by (auto simp: z_fill_def fgt_def)
  show ?thesis
    using assms(2) by (cases v) (simp_all add: grid_fill_def z)
qed

lemma to_runtime_not_missing:
  "v \<noteq> CStr ''MISSING'' \<Longrightarrow> to_runtime dt v \<noteq> CStr ''MISSING''"
  by (cases v; cases dt) (simp_all add: to_runtime_def)

lemma no_parse_stats [simp]:
  "np_mean no_parse xs = FReal (spec_mean xs)" "np_std no_parse xs = FReal (spec_std xs)"
  by (simp_all add: no_parse_def)

lemma z_fill_orange:
  "0 < b \<Longrightarrow> 3 < \<bar>(x - a) / b\<bar>
     \<Longrightarrow> z_fill no_parse (Some \<lparr>mean = FReal a, std = FReal b\<rparr>) x = orange_fill"
  by (simp add: z_fill_def no_parse_def fgt_def Let_def)

lemma z_fill_yellow:
  "0 < b \<Longrightarrow> 2 < \<bar>(x - a) / b\<bar> \<Longrightarrow> \<bar>(x - a) / b\<bar> \<le> 3
     \<Longrightarrow> z_fill no_parse (Some \<lparr>mean = FReal a, std = FReal b\<rparr>) x = yellow_fill"
  by (simp add: z_fill_def no_parse_def fgt_def Let_def)

lemma map_status_fraction_zero:
  "0 < v \<Longrightarrow> v < 1 \<Longrightarrow> map_status py (of_records (Some v)) = CInt 0"
  by (simp add: map_status_def of_records_def isna_def py_float_def py_int_def trunc_def
        floor_eq_iff)

subsection \<open>A grid with a missing cell\<close>

lemma column_dtype_Object: "list_ex is_str col \<Longrightarrow> column_dtype col = Object"
  by (simp add: column_dtype_def Let_def)

lemma frame_dtype_Object:
  assumes "col \<in> set columns" and "list_ex is_str col"
  shows "frame_dtype columns = Object"
proof -
  have "column_dtype col \<in> set (map column_dtype columns)"
    using assms(1) by simp
  then have "Object \<in> set (map column_dtype columns)"
    using column_dtype_Object [OF assms(2)] by simp
  then show ?thesis
    by (simp add: frame_dtype_def Let_def)
qed

lemma grid_dtype_Object:
  assumes "p \<in> set (providers rows)" and "d \<in> set (day_order rows)"
    and "cell_value py rows p d = CStr s"
  shows "grid_dtype py rows = Object"
  unfolding grid_dtype_def
proof (rule frame_dtype_Object)
  show "map (\<lambda>p. cell_value py rows p d) (providers rows)
          \<in> set (map (\<lambda>d. map (\<lambda>p. cell_value py rows p d) (providers rows)) (day_order rows))"
    using assms(2) by (auto intro: image_eqI [where x = d])
  have "is_str (cell_value py rows p d)"
    by (simp add: assms(3))
  then show "list_ex is_str (map (\<lambda>p. cell_value py rows p d) (providers rows))"
    using assms(1) by (auto simp: list_ex_iff)
qed

text \<open>
  As soon as one cell of a rendered grid holds a string, the array behind the grid is of
  Python objects, and a cell that shows an integer is coloured by the z-score branch on
  the baseline of its provider and class.
\<close>

lemma python_int_cell:
  assumes "snd (build_pivot_table py w df) = Inr blk"
    and "i < length (providers (base df))" and "j < length (day_order (base df))"
    and "i' < length (providers (base df))" and "j' < length (day_order (base df))"
    and "cvalue (snd (data_rows blk ! i') ! j') = CStr s"
    and "cvalue (snd (data_rows blk ! i) ! j) = CInt n"
  shows "cfill (snd (data_rows blk ! i) ! j)
           = Some (z_fill py (if weekday (day_order (base df) ! j) \<ge> 5
                              then weekend_stats (stats_of py (base df) (providers (base df) ! i))
                              else weekday_stats (stats_of py (base df) (providers (base df) ! i)))
                     (of_int n))"
proof -
  let ?rows = "base df"
  have s: "cell_value py ?rows (providers ?rows ! i') (day_order ?rows ! j') = CStr s"
    using assms(6) by (simp add: grid_cell_at [OF assms(1,4,5)] grid_cell_def)
  have dt: "grid_dtype py ?rows = Object"
    using _ _ s by (rule grid_dtype_Object) (simp_all add: assms(4,5))
  have v: "cell_value py ?rows (providers ?rows ! i) (day_order ?rows ! j) = CInt n"
    using assms(7) by (simp add: grid_cell_at [OF assms(1,2,3)] grid_cell_def)
  show ?thesis
    by (simp add: grid_cell_at [OF assms(1,2,3)] grid_cell_def v dt to_runtime_def grid_fill_def)
qed

subsection \<open>A grid with no missing cell\<close>

lemma outlier_valid: "\<forall>r \<in> set outlier_rows. valid_date (activity_date r)"
  by (simp add: outlier_rows_def valid_date_def days_in_month_def is_leap_def)

lemma outlier_keys: "distinct (map (\<lambda>r. (provider r, strftime (activity_date r))) outlier_rows)"
proof -
  have "distinct (map (\<lambda>r. (provider r, activity_date r)) outlier_rows)"
    by (simp add: outlier_rows_def)
  then show ?thesis using outlier_valid by (rule label_keys_distinct)
qed

lemma outlier_dtype: "grid_dtype py outlier_rows = Int64"
proof (rule grid_dtype_single_provider [OF outlier_keys])
  show "\<forall>r \<in> set outlier_rows. provider r = ''A''"
    by (simp add: outlier_rows_def)
  show "\<forall>r \<in> set outlier_rows. \<exists>n. map_status py (of_records (records r)) = CInt n
                                    \<and> - (2 ^ 63) \<le> n \<and> n \<le> 2 ^ 63 - 1"
    by (simp add: outlier_rows_def map_status_def of_records_def isna_def py_float_def
          py_int_def trunc_def)
qed

lemma outlier_stats_exact:
  "spec_mean [10, 10, 10, 10, 10, 10, 10, 10, 10, 10, 1000] = 100"
  "spec_std [10, 10, 10, 10, 10, 10, 10, 10, 10, 10, 1000] = sqrt 89100"
  by (simp_all add: spec_std_def spec_mean_def)

lemma outlier_z: "0 < sqrt 89100" "3 < \<bar>(1000 - 100) / sqrt 89100\<bar>"
proof -
  show p: "0 < sqrt 89100" by simp
  have "sqrt 89100 < 300" by (rule real_less_lsqrt) simp_all
  then have "3 * sqrt 89100 < 900" by simp
  then have "3 < 900 / sqrt 89100" using p by (simp add: pos_less_divide_eq)
  then show "3 < \<bar>(1000 - 100) / sqrt 89100\<bar>" by simp
qed

lemma weekday_18: "weekday (Date 2024 3 18) = 0"
  by (simp add: weekday_def toordinal_def days_before_year_def days_before_month_def is_leap_def)

text \<open>
  Claim C1. The claim wants a cell whose z-score against its baseline exceeds 3 to be
  SEVERE, orange. Provider A reports 10 on ten weekdays and 1000 on Monday 18 March
  2024. Every cell of the grid is an integer, so the sheet holds numpy integers, which
  the test \<^verbatim>\<open>isinstance(c.value, (int, float))\<close> rejects: the cell of the 18th shows 1000
  and is green, in every environment. Its weekday baseline exists, with mean 100 and a
  positive deviation in exact arithmetic, and the z-score of 1000 is above 3; the
  z-score branch, given the same value as a Python integer, paints it orange, and that
  is the branch a grid with a missing cell takes (\<open>python_int_cell\<close>).
\<close>

theorem outlier_cell_green:
  "\<exists>blk. snd (build_pivot_table py 1 (frame_of outlier_rows)) = Inr blk
     \<and> map fst (data_rows blk) = [''A'']
     \<and> snd (data_rows blk ! 0) ! 10 = \<lparr>cvalue = CInt 1000, cfill = Some green_fill\<rparr>
     \<and> weekday_stats (stats_of py outlier_rows ''A'')
         = Some \<lparr>mean = np_mean py (qualifying outlier_rows ''A'' False),
                 std = np_std py (qualifying outlier_rows ''A'' False)\<rparr>
     \<and> spec_mean (qualifying outlier_rows ''A'' False) = 100
     \<and> 0 < spec_std (qualifying outlier_rows ''A'' False)
     \<and> 3 < \<bar>(1000 - spec_mean (qualifying outlier_rows ''A'' False))
               / spec_std (qualifying outlier_rows ''A'' False)\<bar>
     \<and> cell_fill no_parse (provider_stats no_parse outlier_rows (providers outlier_rows))
          ''A'' (Date 2024 3 18) (CInt 1000) = Inr orange_fill"
proof -
  let ?q = "qualifying outlier_rows ''A'' False"
  obtain blk where b: "snd (build_pivot_table py 1 (frame_of outlier_rows)) = Inr blk"
    using outlier_keys by (simp add: build_pivot_table_snd render_pivot_Inr)
  have names: "map fst (data_rows blk) = [''A'']"
    using build_pivot_table_block(3) [OF b] by (simp add: outlier_providers comp_def)
  have m: "\<lparr>provider = ''A'', activity_date = Date 2024 3 18, records = Some 1000\<rparr> \<in> set outlier_rows"
    by (simp add: outlier_rows_def)
  have v: "cell_value py outlier_rows ''A'' (Date 2024 3 18) = CInt 1000"
    using cell_value_present [OF outlier_keys m, of py]
    by (simp add: map_status_def of_records_def isna_def py_float_def py_int_def trunc_def)
  have c: "snd (data_rows blk ! 0) ! 10 = \<lparr>cvalue = CInt 1000, cfill = Some green_fill\<rparr>"
  proof (rule numpy_cell_green [OF b])
    show "0 < length (providers (base (frame_of outlier_rows)))"
      by (simp add: outlier_providers)
    show "10 < length (day_order (base (frame_of outlier_rows)))"
      by (simp add: outlier_day_order)
    show "grid_dtype py (base (frame_of outlier_rows)) = Int64"
      by (simp add: outlier_dtype)
    show "cell_value py (base (frame_of outlier_rows)) (providers (base (frame_of outlier_rows)) ! 0)
            (day_order (base (frame_of outlier_rows)) ! 10) = CInt 1000"
      by (simp add: outlier_providers outlier_day_order v)
  qed
  have st: "weekday_stats (stats_of py outlier_rows ''A'')
              = Some \<lparr>mean = np_mean py ?q, std = np_std py ?q\<rparr>"
    by (simp add: stats_of_qualifying outlier_qualifying)
  have mean_q: "spec_mean ?q = 100" and std_q: "spec_std ?q = sqrt 89100"
    unfolding outlier_qualifying by (rule outlier_stats_exact)+
  have sibling: "cell_fill no_parse (provider_stats no_parse outlier_rows (providers outlier_rows))
                   ''A'' (Date 2024 3 18) (CInt 1000) = Inr orange_fill"
  proof -
    have "grid_fill no_parse outlier_rows ''A'' (Date 2024 3 18) (CInt 1000)
            = z_fill no_parse (Some \<lparr>mean = FReal 100, std = FReal (sqrt 89100)\<rparr>) 1000"
      by (simp add: grid_fill_def weekday_18 stats_of_qualifying outlier_qualifying
            outlier_stats_exact)
    also have "\<dots> = orange_fill"
      using outlier_z by (rule z_fill_orange)
    finally show ?thesis
      by (simp add: cell_fill_grid outlier_providers)
  qed
  show ?thesis
    unfolding mean_q std_q
    by (intro exI [of _ blk] conjI) (rule b names c st refl outlier_z sibling)+
qed

subsection \<open>A weekend column of a grid with no missing cell\<close>

lemma weekend_valid: "\<forall>r \<in> set weekend_rows. valid_date (activity_date r)"
  by (simp add: weekend_rows_def valid_date_def days_in_month_def is_leap_def)

lemma weekend_keys: "distinct (map (\<lambda>r. (provider r, strftime (activity_date r))) weekend_rows)"
proof -
  have "distinct (map (\<lambda>r. (provider r, activity_date r)) weekend_rows)"
    by (simp add: weekend_rows_def)
  then show ?thesis using weekend_valid by (rule label_keys_distinct)
qed

lemma weekend_dtype: "grid_dtype py weekend_rows = Int64"
proof (rule grid_dtype_single_provider [OF weekend_keys])
  show "\<forall>r \<in> set weekend_rows. provider r = ''A''"
    by (simp add: weekend_rows_def)
  show "\<forall>r \<in> set weekend_rows. \<exists>n. map_status py (of_records (records r)) = CInt n
                                    \<and> - (2 ^ 63) \<le> n \<and> n \<le> 2 ^ 63 - 1"
    by (simp add: weekend_rows_def map_status_def of_records_def isna_def py_float_def
          py_int_def trunc_def)
qed

lemma weekend_providers: "providers weekend_rows = [''A'']"
  by (simp add: providers_def weekend_rows_def)

lemma weekend_day_order:
  "day_order weekend_rows =
     [Date 2024 3 2, Date 2024 3 3, Date 2024 3 4, Date 2024 3 5, Date 2024 3 6, Date 2024 3 9,
      Date 2024 3 10, Date 2024 3 16, Date 2024 3 17]"
  by (simp add: day_order_def weekend_rows_def toordinal_def days_before_year_def
        days_before_month_def is_leap_def)

lemma weekend_qualifying:
  "qualifying weekend_rows ''A'' True = [10, 10, 10, 10, 10, 1000]"
  "qualifying weekend_rows ''A'' False = [400, 500, 600]"
  by (simp_all add: qualifying_def weekend_rows_def weekday_def toordinal_def days_before_year_def
        days_before_month_def is_leap_def)

lemma weekend_stats_exact:
  "spec_mean [10, 10, 10, 10, 10, 1000] = 175"
  "spec_std [10, 10, 10, 10, 10, 1000] = sqrt 163350"
  "spec_mean [400, 500, 600] = 500"
  "spec_std [400, 500, 600] = sqrt 10000"
  by (simp_all add: spec_std_def spec_mean_def)

lemma weekend_z:
  "0 < sqrt 163350" "2 < \<bar>(1000 - 175) / sqrt 163350\<bar>" "\<bar>(1000 - 175) / sqrt 163350\<bar> \<le> 3"
proof -
  show p: "0 < sqrt 163350" by simp
  have "sqrt 163350 < 412" by (rule real_less_lsqrt) simp_all
  then have "2 * sqrt 163350 < 825" by simp
  then have "2 < 825 / sqrt 163350" using p by (simp add: pos_less_divide_eq)
  then show "2 < \<bar>(1000 - 175) / sqrt 163350\<bar>" by simp
  have "275 \<le> sqrt 163350" by (rule real_le_rsqrt) simp
  then have "825 \<le> 3 * sqrt 163350" by simp
  then have "825 / sqrt 163350 \<le> 3" using p by (simp add: pos_divide_le_eq)
  then show "\<bar>(1000 - 175) / sqrt 163350\<bar> \<le> 3" by simp
qed

lemma weekday_z: "0 < sqrt 10000" "3 < \<bar>(1000 - 500) / sqrt 10000\<bar>"
proof -
  have s: "sqrt 10000 = 100" by (rule real_sqrt_unique) simp_all
  show "0 < sqrt 10000" by simp
  show "3 < \<bar>(1000 - 500) / sqrt 10000\<bar>" unfolding s by simp
qed

lemma weekday_17: "weekday (Date 2024 3 17) = 6"
  by (simp add: weekday_def toordinal_def days_before_year_def days_before_month_def is_leap_def)

text \<open>
  Claim C5. The claim wants every cell of a weekend column classified from its
  provider's weekend baseline. Provider A reports 10 on five weekend days, 1000 on
  Sunday 17 March 2024, and 400, 500, 600 on three weekdays. The 17th is a Sunday and
  its header is grey, so the date is tagged as the claim says. Both baselines exist. In
  exact arithmetic the weekend baseline puts 1000 between 2 and 3 deviations from its
  mean, MODERATE, and the weekday baseline puts it above 3, SEVERE; the z-score branch,
  given the value as a Python integer, selects the weekend baseline and paints it
  yellow. The grid has no missing cell, the sheet holds numpy integers, and the cell of
  the 17th is green, in every environment: no baseline is used.
\<close>

theorem weekend_cell_green:
  "\<exists>blk. snd (build_pivot_table py 1 (frame_of weekend_rows)) = Inr blk
     \<and> day_name (Date 2024 3 17) = ''Sunday''
     \<and> date_row blk ! 9 = \<lparr>cvalue = CStr ''17/03/2024'', cfill = Some grey_fill\<rparr>
     \<and> map fst (data_rows blk) = [''A'']
     \<and> snd (data_rows blk ! 0) ! 8 = \<lparr>cvalue = CInt 1000, cfill = Some green_fill\<rparr>
     \<and> weekend_stats (stats_of py weekend_rows ''A'')
         = Some \<lparr>mean = np_mean py (qualifying weekend_rows ''A'' True),
                 std = np_std py (qualifying weekend_rows ''A'' True)\<rparr>
     \<and> weekday_stats (stats_of py weekend_rows ''A'')
         = Some \<lparr>mean = np_mean py (qualifying weekend_rows ''A'' False),
                 std = np_std py (qualifying weekend_rows ''A'' False)\<rparr>
     \<and> z_fill no_parse (weekend_stats (stats_of no_parse weekend_rows ''A'')) 1000 = yellow_fill
     \<and> z_fill no_parse (weekday_stats (stats_of no_parse weekend_rows ''A'')) 1000 = orange_fill
     \<and> cell_fill no_parse (provider_stats no_parse weekend_rows (providers weekend_rows))
          ''A'' (Date 2024 3 17) (CInt 1000) = Inr yellow_fill"
proof -
  obtain blk where b: "snd (build_pivot_table py 1 (frame_of weekend_rows)) = Inr blk"
    using weekend_keys by (simp add: build_pivot_table_snd render_pivot_Inr)
  have sunday: "day_name (Date 2024 3 17) = ''Sunday''"
    by (simp add: day_name_def weekday_17)
  have header: "date_row blk ! 9 = \<lparr>cvalue = CStr ''17/03/2024'', cfill = Some grey_fill\<rparr>"
    using build_pivot_table_block(2) [OF b]
    by (simp add: weekend_day_order weekday_17 strftime_def pad2_def pad4_def digit_def)
  have names: "map fst (data_rows blk) = [''A'']"
    using build_pivot_table_block(3) [OF b] by (simp add: weekend_providers comp_def)
  have m: "\<lparr>provider = ''A'', activity_date = Date 2024 3 17, records = Some 1000\<rparr> \<in> set weekend_rows"
    by (simp add: weekend_rows_def)
  have v: "cell_value py weekend_rows ''A'' (Date 2024 3 17) = CInt 1000"
    using cell_value_present [OF weekend_keys m, of py]
    by (simp add: map_status_def of_records_def isna_def py_float_def py_int_def trunc_def)
  have c: "snd (data_rows blk ! 0) ! 8 = \<lparr>cvalue = CInt 1000, cfill = Some green_fill\<rparr>"
  proof (rule numpy_cell_green [OF b])
    show "0 < length (providers (base (frame_of weekend_rows)))"
      by (simp add: weekend_providers)
    show "8 < length (day_order (base (frame_of weekend_rows)))"
      by (simp add: weekend_day_order)
    show "grid_dtype py (base (frame_of weekend_rows)) = Int64"
      by (simp add: weekend_dtype)
    show "cell_value py (base (frame_of weekend_rows)) (providers (base (frame_of weekend_rows)) ! 0)
            (day_order (base (frame_of weekend_rows)) ! 8) = CInt 1000"
      by (simp add: weekend_providers weekend_day_order v)
  qed
  have we: "weekend_stats (stats_of py weekend_rows ''A'')
              = Some \<lparr>mean = np_mean py (qualifying weekend_rows ''A'' True),
                      std = np_std py (qualifying weekend_rows ''A'' True)\<rparr>" for py
    by (simp add: stats_of_qualifying weekend_qualifying)
  have wd: "weekday_stats (stats_of py weekend_rows ''A'')
              = Some \<lparr>mean = np_mean py (qualifying weekend_rows ''A'' False),
                      std = np_std py (qualifying weekend_rows ''A'' False)\<rparr>" for py
    by (simp add: stats_of_qualifying weekend_qualifying)
  have by_weekend: "z_fill no_parse (weekend_stats (stats_of no_parse weekend_rows ''A'')) 1000
                      = yellow_fill"
  proof -
    have "z_fill no_parse (weekend_stats (stats_of no_parse weekend_rows ''A'')) 1000
            = z_fill no_parse (Some \<lparr>mean = FReal 175, std = FReal (sqrt 163350)\<rparr>) 1000"
      by (simp add: we weekend_qualifying weekend_stats_exact)
    also have "\<dots> = yellow_fill"
      using weekend_z by (rule z_fill_yellow)
    finally show ?thesis .
  qed
  have by_weekday: "z_fill no_parse (weekday_stats (stats_of no_parse weekend_rows ''A'')) 1000
                      = orange_fill"
  proof -
    have "z_fill no_parse (weekday_stats (stats_of no_parse weekend_rows ''A'')) 1000
            = z_fill no_parse (Some \<lparr>mean = FReal 500, std = FReal (sqrt 10000)\<rparr>) 1000"
      by (simp add: wd weekend_qualifying weekend_stats_exact)
    also have "\<dots> = orange_fill"
      using weekday_z by (rule z_fill_orange)
    finally show ?thesis .
  qed
  have sibling: "cell_fill no_parse (provider_stats no_parse weekend_rows (providers weekend_rows))
                   ''A'' (Date 2024 3 17) (CInt 1000) = Inr yellow_fill"
    by (simp add: cell_fill_grid weekend_providers grid_fill_def weekday_17 by_weekend)
  show ?thesis
    by (intro exI [of _ blk] conjI)
       (rule b sunday header names c we wd by_weekend by_weekday sibling)+
qed

subsection \<open>A fraction in a grid with no missing cell\<close>

lemma fraction_valid: "\<forall>r \<in> set fraction_rows. valid_date (activity_date r)"
  by (simp add: fraction_rows_def valid_date_def days_in_month_def is_leap_def)

lemma fraction_keys: "distinct (map (\<lambda>r. (provider r, strftime (activity_date r))) fraction_rows)"
proof -
  have "distinct (map (\<lambda>r. (provider r, activity_date r)) fraction_rows)"
    by (simp add: fraction_rows_def)
  then show ?thesis using fraction_valid by (rule label_keys_distinct)
qed

lemma fraction_dtype: "grid_dtype py fraction_rows = Int64"
proof (rule grid_dtype_single_provider [OF fraction_keys])
  show "\<forall>r \<in> set fraction_rows. provider r = ''A''"
    by (simp add: fraction_rows_def)
  show "\<forall>r \<in> set fraction_rows. \<exists>n. map_status py (of_records (records r)) = CInt n
                                    \<and> - (2 ^ 63) \<le> n \<and> n \<le> 2 ^ 63 - 1"
    by (simp add: fraction_rows_def map_status_def of_records_def isna_def py_float_def
          py_int_def trunc_def)
qed

lemma fraction_providers: "providers fraction_rows = [''A'']"
  by (simp add: providers_def fraction_rows_def)

lemma fraction_day_order:
  "day_order fraction_rows =
     [Date 2024 3 4, Date 2024 3 5, Date 2024 3 6, Date 2024 3 7, Date 2024 3 8, Date 2024 3 11]"
  by (simp add: day_order_def fraction_rows_def toordinal_def days_before_year_def
        days_before_month_def is_leap_def)

lemma fraction_qualifying:
  "qualifying fraction_rows ''A'' False = [1 / 2, 100, 100, 100, 100, 100]"
  by (simp add: qualifying_def fraction_rows_def weekday_def toordinal_def days_before_year_def
        days_before_month_def is_leap_def)

lemma fraction_stats_exact:
  "spec_mean [1 / 2, 100, 100, 100, 100, 100] = 1001 / 12"
  "spec_std [1 / 2, 100, 100, 100, 100, 100] = sqrt (39601 / 24)"
  by (simp_all add: spec_std_def spec_mean_def power2_eq_square)

lemma fraction_z:
  "0 < sqrt (39601 / 24)" "2 < \<bar>(0 - 1001 / 12) / sqrt (39601 / 24)\<bar>"
  "\<bar>(0 - 1001 / 12) / sqrt (39601 / 24)\<bar> \<le> 3"
proof -
  show p: "0 < sqrt (39601 / 24)" by simp
  have "sqrt (39601 / 24) < 41" by (rule real_less_lsqrt) simp_all
  then have "2 * sqrt (39601 / 24) < 1001 / 12" by simp
  then have "2 < (1001 / 12) / sqrt (39601 / 24)" using p by (simp add: pos_less_divide_eq)
  then show "2 < \<bar>(0 - 1001 / 12) / sqrt (39601 / 24)\<bar>" by simp
  have "40 \<le> sqrt (39601 / 24)" by (rule real_le_rsqrt) simp
  then have "1001 / 12 \<le> 3 * sqrt (39601 / 24)" by simp
  then have "(1001 / 12) / sqrt (39601 / 24) \<le> 3" using p by (simp add: pos_divide_le_eq)
  then show "\<bar>(0 - 1001 / 12) / sqrt (39601 / 24)\<bar> \<le> 3" by simp
qed

lemma weekday_4: "weekday (Date 2024 3 4) = 0"
  by (simp add: weekday_def toordinal_def days_before_year_def days_before_month_def is_leap_def)

text \<open>
  Claim C10. A record value strictly between 0 and 1 is not zero as a float and
  truncates to 0, so \<^verbatim>\<open>map_status\<close> returns the integer 0 and the cell shows 0, as the
  claim says. The claim then wants the cell classified through the z-score branch.
  Provider A reports one half on Monday 4 March 2024 and 100 on the five weekdays that
  follow. The weekday baseline exists; in exact arithmetic the displayed 0 lies between
  2 and 3 deviations from its mean, and the z-score branch, given the Python integer 0,
  paints it yellow. The grid has no missing cell, the sheet holds the numpy integer 0,
  and the cell is green, in every environment, by the last branch of the loop.
\<close>

theorem fraction_cell_green:
  "map_status py (of_records (Some (1 / 2))) = CInt 0
     \<and> (\<exists>blk. snd (build_pivot_table py 1 (frame_of fraction_rows)) = Inr blk
          \<and> map fst (data_rows blk) = [''A'']
          \<and> snd (data_rows blk ! 0) ! 0 = \<lparr>cvalue = CInt 0, cfill = Some green_fill\<rparr>)
     \<and> to_runtime (grid_dtype py fraction_rows) (cell_value py fraction_rows ''A'' (Date 2024 3 4))
         = CNumpy 0
     \<and> weekday_stats (stats_of py fraction_rows ''A'')
         = Some \<lparr>mean = np_mean py (qualifying fraction_rows ''A'' False),
                 std = np_std py (qualifying fraction_rows ''A'' False)\<rparr>
     \<and> z_fill no_parse (weekday_stats (stats_of no_parse fraction_rows ''A'')) 0 = yellow_fill
     \<and> cell_fill no_parse (provider_stats no_parse fraction_rows (providers fraction_rows))
          ''A'' (Date 2024 3 4) (CInt 0) = Inr yellow_fill"
proof -
  have half: "map_status py (of_records (Some (1 / 2))) = CInt 0"
    by (rule map_status_fraction_zero) simp_all
  obtain blk where b: "snd (build_pivot_table py 1 (frame_of fraction_rows)) = Inr blk"
    using fraction_keys by (simp add: build_pivot_table_snd render_pivot_Inr)
  have names: "map fst (data_rows blk) = [''A'']"
    using build_pivot_table_block(3) [OF b] by (simp add: fraction_providers comp_def)
  have m: "\<lparr>provider = ''A'', activity_date = Date 2024 3 4, records = Some (1 / 2)\<rparr> \<in> set fraction_rows"
    by (simp add: fraction_rows_def)
  have v: "cell_value py fraction_rows ''A'' (Date 2024 3 4) = CInt 0"
    using cell_value_present [OF fraction_keys m, of py] by (simp add: half)
  have c: "snd (data_rows blk ! 0) ! 0 = \<lparr>cvalue = CInt 0, cfill = Some green_fill\<rparr>"
  proof (rule numpy_cell_green [OF b])
    show "0 < length (providers (base (frame_of fraction_rows)))"
      by (simp add: fraction_providers)
    show "0 < length (day_order (base (frame_of fraction_rows)))"
      by (simp add: fraction_day_order)
    show "grid_dtype py (base (frame_of fraction_rows)) = Int64"
      by (simp add: fraction_dtype)
    show "cell_value py (base (frame_of fraction_rows)) (providers (base (frame_of fraction_rows)) ! 0)
            (day_order (base (frame_of fraction_rows)) ! 0) = CInt 0"
      by (simp add: fraction_providers fraction_day_order v)
  qed
  have held: "to_runtime (grid_dtype py fraction_rows) (cell_value py fraction_rows ''A'' (Date 2024 3 4))
                = CNumpy 0"
    by (simp add: fraction_dtype v)
  have wd: "weekday_stats (stats_of py fraction_rows ''A'')
              = Some \<lparr>mean = np_mean py (qualifying fraction_rows ''A'' False),
                      std = np_std py (qualifying fraction_rows ''A'' False)\<rparr>" for py
    by (simp add: stats_of_qualifying fraction_qualifying)
  have by_weekday: "z_fill no_parse (weekday_stats (stats_of no_parse fraction_rows ''A'')) 0
                      = yellow_fill"
  proof -
    have "z_fill no_parse (weekday_stats (stats_of no_parse fraction_rows ''A'')) 0
            = z_fill no_parse (Some \<lparr>mean = FReal (1001 / 12), std = FReal (sqrt (39601 / 24))\<rparr>) 0"
      by (simp add: wd fraction_qualifying fraction_stats_exact)
    also have "\<dots> = yellow_fill"
      using fraction_z by (rule z_fill_yellow)
    finally show ?thesis .
  qed
  have sibling: "cell_fill no_parse (provider_stats no_parse fraction_rows (providers fraction_rows))
                   ''A'' (Date 2024 3 4) (CInt 0) = Inr yellow_fill"
    by (simp add: cell_fill_grid fraction_providers grid_fill_def weekday_4 by_weekday)
  have block: "\<exists>blk. snd (build_pivot_table py 1 (frame_of fraction_rows)) = Inr blk
          \<and> map fst (data_rows blk) = [''A'']
          \<and> snd (data_rows blk ! 0) ! 0 = \<lparr>cvalue = CInt 0, cfill = Some green_fill\<rparr>"
    by (intro exI [of _ blk] conjI) (rule b names c)+
  show ?thesis
    by (intro conjI) (rule half block held wd by_weekday sibling)+
qed

subsection \<open>No flag without a baseline\<close>

lemma flat_valid: "\<forall>r \<in> set flat_rows. valid_date (activity_date r)"
  by (simp add: flat_rows_def valid_date_def days_in_month_def is_leap_def)

lemma flat_keys: "distinct (map (\<lambda>r. (provider r, strftime (activity_date r))) flat_rows)"
proof -
  have "distinct (map (\<lambda>r. (provider r, activity_date r)) flat_rows)"
    by (simp add: flat_rows_def)
  then show ?thesis using flat_valid by (rule label_keys_distinct)
qed

lemma flat_providers: "providers flat_rows = [''A'']"
  by (simp add: providers_def flat_rows_def)

lemma flat_day_order:
  "day_order flat_rows = [Date 2024 3 4, Date 2024 3 5, Date 2024 3 6, Date 2024 3 7]"
  by (simp add: day_order_def flat_rows_def toordinal_def days_before_year_def
        days_before_month_def is_leap_def)

lemma flat_qualifying: "qualifying flat_rows ''A'' False = [5, 5, 5]"
  by (simp add: qualifying_def flat_rows_def weekday_def toordinal_def days_before_year_def
        days_before_month_def is_leap_def)

lemma flat_std: "spec_std [5, 5, 5] = 0"
  by (simp add: spec_std_def spec_mean_def)

lemma example_qualifying: "qualifying example_rows ''A'' False = [5]"
  by (simp add: qualifying_def example_rows_def weekday_def toordinal_def days_before_year_def
        days_before_month_def is_leap_def)

text \<open>
  Claim C2. Each of a provider's two baselines is the mean and the deviation, as the
  libraries compute them, of the qualifying values of its class: the provider's record
  counts of that class that are present and strictly positive; and it exists only when
  there are more than two of them. In a rendered grid, when the baseline of a cell's
  provider and class is absent, or its deviation is zero, a cell that is not
  \<^verbatim>\<open>"MISSING"\<close> is green; and the colouring of that cell gives green for every value
  other than \<^verbatim>\<open>"MISSING"\<close>, whichever object the sheet holds.
\<close>

theorem no_flag_without_baseline:
  assumes "snd (build_pivot_table py w df) = Inr blk"
    and "i < length (providers (base df))" and "j < length (day_order (base df))"
    and "length (qualifying (base df) (providers (base df) ! i)
                   (weekday (day_order (base df) ! j) \<ge> 5)) \<le> 2
       \<or> np_std py (qualifying (base df) (providers (base df) ! i)
                      (weekday (day_order (base df) ! j) \<ge> 5)) = FReal 0"
  shows "(\<forall>p. weekday_stats (stats_of py (base df) p)
                = (if length (qualifying (base df) p False) > 2
                   then Some \<lparr>mean = np_mean py (qualifying (base df) p False),
                              std = np_std py (qualifying (base df) p False)\<rparr>
                   else None)
            \<and> weekend_stats (stats_of py (base df) p)
                = (if length (qualifying (base df) p True) > 2
                   then Some \<lparr>mean = np_mean py (qualifying (base df) p True),
                              std = np_std py (qualifying (base df) p True)\<rparr>
                   else None))
       \<and> (cvalue (snd (data_rows blk ! i) ! j) \<noteq> CStr ''MISSING''
            \<longrightarrow> cfill (snd (data_rows blk ! i) ! j) = Some green_fill)
       \<and> (\<forall>v. v \<noteq> CStr ''MISSING''
            \<longrightarrow> cell_fill py (provider_stats py (base df) (providers (base df)))
                  (providers (base df) ! i) (day_order (base df) ! j) v = Inr green_fill)"
proof -
  let ?rows = "base df"
  let ?p = "providers ?rows ! i" and ?d = "day_order ?rows ! j"
  have stats: "\<forall>p. weekday_stats (stats_of py ?rows p)
                = (if length (qualifying ?rows p False) > 2
                   then Some \<lparr>mean = np_mean py (qualifying ?rows p False),
                              std = np_std py (qualifying ?rows p False)\<rparr>
                   else None)
            \<and> weekend_stats (stats_of py ?rows p)
                = (if length (qualifying ?rows p True) > 2
                   then Some \<lparr>mean = np_mean py (qualifying ?rows p True),
                              std = np_std py (qualifying ?rows p True)\<rparr>
                   else None)"
    by (simp add: stats_of_qualifying)
  have cell: "snd (data_rows blk ! i) ! j = grid_cell py ?rows ?p ?d"
    using assms(1,2,3) by (rule grid_cell_at)
  have shown: "cvalue (snd (data_rows blk ! i) ! j) \<noteq> CStr ''MISSING''
                 \<longrightarrow> cfill (snd (data_rows blk ! i) ! j) = Some green_fill"
  proof
    assume "cvalue (snd (data_rows blk ! i) ! j) \<noteq> CStr ''MISSING''"
    then have "cell_value py ?rows ?p ?d \<noteq> CStr ''MISSING''"
      by (simp add: cell grid_cell_def)
    then have "to_runtime (grid_dtype py ?rows) (cell_value py ?rows ?p ?d) \<noteq> CStr ''MISSING''"
      by (rule to_runtime_not_missing)
    with assms(4)
    have "grid_fill py ?rows ?p ?d (to_runtime (grid_dtype py ?rows) (cell_value py ?rows ?p ?d))
            = green_fill"
      by (rule no_baseline_green)
    then show "cfill (snd (data_rows blk ! i) ! j) = Some green_fill"
      by (simp add: cell grid_cell_def)
  qed
  have mem: "?p \<in> set (providers ?rows)"
    using assms(2) by simp
  have every: "\<forall>v. v \<noteq> CStr ''MISSING''
            \<longrightarrow> cell_fill py (provider_stats py ?rows (providers ?rows)) ?p ?d v = Inr green_fill"
    using no_baseline_green [OF assms(4)] by (simp add: cell_fill_grid [OF mem])
  show ?thesis
    using stats shown every by blast
qed

theorem no_flag_without_baseline_witness:
  "(\<exists>blk. snd (build_pivot_table no_parse 1 (frame_of flat_rows)) = Inr blk
      \<and> cvalue (snd (data_rows blk ! 0) ! 0) = CInt 5
      \<and> cfill (snd (data_rows blk ! 0) ! 0) = Some green_fill
      \<and> cell_fill no_parse (provider_stats no_parse flat_rows [''A'']) ''A'' (Date 2024 3 4)
          (CInt 1000000) = Inr green_fill)
   \<and> (\<exists>blk. snd (build_pivot_table no_parse 1 example_frame) = Inr blk
      \<and> cvalue (snd (data_rows blk ! 0) ! 0) = CInt 5
      \<and> cfill (snd (data_rows blk ! 0) ! 0) = Some green_fill)"
proof -
  obtain blk where b: "snd (build_pivot_table no_parse 1 (frame_of flat_rows)) = Inr blk"
    using flat_keys by (simp add: build_pivot_table_snd render_pivot_Inr)
  have i0: "0 < length (providers (base (frame_of flat_rows)))"
    and j0: "0 < length (day_order (base (frame_of flat_rows)))"
    by (simp_all add: flat_providers flat_day_order)
  have h: "length (qualifying (base (frame_of flat_rows)) (providers (base (frame_of flat_rows)) ! 0)
                     (weekday (day_order (base (frame_of flat_rows)) ! 0) \<ge> 5)) \<le> 2
         \<or> np_std no_parse (qualifying (base (frame_of flat_rows)) (providers (base (frame_of flat_rows)) ! 0)
                     (weekday (day_order (base (frame_of flat_rows)) ! 0) \<ge> 5)) = FReal 0"
    by (simp add: flat_providers flat_day_order weekday_4 flat_qualifying flat_std)
  have m: "\<lparr>provider = ''A'', activity_date = Date 2024 3 4, records = Some 5\<rparr> \<in> set flat_rows"
    by (simp add: flat_rows_def)
  have v: "cell_value no_parse flat_rows ''A'' (Date 2024 3 4) = CInt 5"
    using cell_value_present [OF flat_keys m, of no_parse]
    by (simp add: map_status_def of_records_def isna_def py_float_def py_int_def trunc_def)
  have shown: "cvalue (snd (data_rows blk ! 0) ! 0) = CInt 5"
    using grid_cell_at [OF b i0 j0]
    by (simp add: grid_cell_def flat_providers flat_day_order v)
  note t = no_flag_without_baseline [OF b i0 j0 h]
  have green: "cfill (snd (data_rows blk ! 0) ! 0) = Some green_fill"
    using t shown by simp
  have big: "cell_fill no_parse (provider_stats no_parse flat_rows [''A'']) ''A'' (Date 2024 3 4)
               (CInt 1000000) = Inr green_fill"
    using t by (simp add: flat_providers flat_day_order)
  obtain blk' where b': "snd (build_pivot_table no_parse 1 example_frame) = Inr blk'"
    using example_renders by blast
  have i0': "0 < length (providers (base example_frame))"
    and j0': "0 < length (day_order (base example_frame))"
    unfolding example_base by (simp_all add: example_providers example_day_order)
  have h': "length (qualifying (base example_frame) (providers (base example_frame) ! 0)
                     (weekday (day_order (base example_frame) ! 0) \<ge> 5)) \<le> 2
         \<or> np_std no_parse (qualifying (base example_frame) (providers (base example_frame) ! 0)
                     (weekday (day_order (base example_frame) ! 0) \<ge> 5)) = FReal 0"
    unfolding example_base example_providers example_day_order
    by (simp add: example_qualifying weekday_def toordinal_def days_before_year_def
          days_before_month_def is_leap_def)
  have m': "\<lparr>provider = ''A'', activity_date = Date 2024 1 1, records = Some 5\<rparr> \<in> set example_rows"
    unfolding example_rows_def by simp
  have v': "cell_value no_parse example_rows ''A'' (Date 2024 1 1) = CInt 5"
  proof -
    have k: "distinct (map (\<lambda>r. (provider r, strftime (activity_date r))) example_rows)"
      using example_distinct example_valid by (rule label_keys_distinct)
    have "cell_value no_parse example_rows
            (provider \<lparr>provider = ''A'', activity_date = Date 2024 1 1, records = Some 5\<rparr>)
            (activity_date \<lparr>provider = ''A'', activity_date = Date 2024 1 1, records = Some 5\<rparr>)
          = map_status no_parse
              (of_records (records \<lparr>provider = ''A'', activity_date = Date 2024 1 1, records = Some 5\<rparr>))"
      using k m' by (rule cell_value_present)
    then show ?thesis
      unfolding activity.simps
      by (simp only:) (simp add: map_status_def of_records_def isna_def py_float_def py_int_def trunc_def)
  qed
  have cell': "snd (data_rows blk' ! 0) ! 0
                 = grid_cell no_parse example_rows ([''A'', ''B''] ! 0)
                     ([Date 2024 1 1, Date 2024 1 2, Date 2024 1 6] ! 0)"
    using grid_cell_at [OF b' i0' j0'] unfolding example_base example_providers example_day_order .
  have shown': "cvalue (snd (data_rows blk' ! 0) ! 0) = CInt 5"
    unfolding cell' nth_Cons_0 grid_cell_def using v' by simp
  have green': "cfill (snd (data_rows blk' ! 0) ! 0) = Some green_fill"
    using no_flag_without_baseline [OF b' i0' j0' h'] shown' by simp
  show ?thesis
    using b shown green big b' shown' green' by blast
qed

subsection \<open>What the renderers write to their frames\<close>

lemma to_datetime_idem: "to_datetime (to_datetime v) = to_datetime v"
  by (cases v) (simp_all add: to_datetime_def)

lemma render_of_read:
  "fst (build_pivot_table py w (query_snowflake_activity fetched))
     = map (\<lambda>r. r\<lparr>WEEKDAY := Some (weekday_label (day_of (ACTIVITY_DATE r)))\<rparr>)
           (query_snowflake_activity fetched)"
  by (simp add: build_pivot_table_def query_snowflake_activity_def Let_def comp_def
        to_datetime_idem case_prod_beta)

text \<open>
  Claim C8. \<^verbatim>\<open>build_pivot_table\<close> assigns three columns of the frame it is given. For
  every frame the \<^verbatim>\<open>PROVIDER\<close> and \<^verbatim>\<open>RECORDS\<close> columns are afterwards what they were, and
  every row still carries the same day. On a frame as the reader returns it, the only
  frames the program renders, the dates are timestamps already and the day label is
  there already, so these two assignments write back what the columns held: the frame
  afterwards is the frame before with the \<^verbatim>\<open>WEEKDAY\<close> column added. \<^verbatim>\<open>build_summary_table\<close>
  assigns nothing.
\<close>

theorem renderers_keep_input:
  "map PROVIDER (fst (build_pivot_table py w df)) = map PROVIDER df
     \<and> map RECORDS (fst (build_pivot_table py w df)) = map RECORDS df
     \<and> map (\<lambda>r. day_of (ACTIVITY_DATE r)) (fst (build_pivot_table py w df))
         = map (\<lambda>r. day_of (ACTIVITY_DATE r)) df
     \<and> map ACTIVITY_DATE (fst (build_pivot_table py w (query_snowflake_activity fetched)))
         = map ACTIVITY_DATE (query_snowflake_activity fetched)
     \<and> map DAY_LABEL (fst (build_pivot_table py w (query_snowflake_activity fetched)))
         = map DAY_LABEL (query_snowflake_activity fetched)
     \<and> fst (build_pivot_table py w (query_snowflake_activity fetched))
         = map (\<lambda>r. r\<lparr>WEEKDAY := Some (weekday_label (day_of (ACTIVITY_DATE r)))\<rparr>)
               (query_snowflake_activity fetched)
     \<and> fst (build_summary_table py sdf) = sdf"
proof -
  have p: "map PROVIDER (fst (build_pivot_table py w df)) = map PROVIDER df"
    by (simp add: build_pivot_table_def Let_def comp_def)
  have r: "map RECORDS (fst (build_pivot_table py w df)) = map RECORDS df"
    by (simp add: build_pivot_table_def Let_def comp_def)
  have d: "map (\<lambda>r. day_of (ACTIVITY_DATE r)) (fst (build_pivot_table py w df))
             = map (\<lambda>r. day_of (ACTIVITY_DATE r)) df"
    by (simp add: build_pivot_table_def Let_def comp_def)
  have a: "map ACTIVITY_DATE (fst (build_pivot_table py w (query_snowflake_activity fetched)))
             = map ACTIVITY_DATE (query_snowflake_activity fetched)"
    unfolding render_of_read by (simp add: comp_def)
  have l: "map DAY_LABEL (fst (build_pivot_table py w (query_snowflake_activity fetched)))
             = map DAY_LABEL (query_snowflake_activity fetched)"
    unfolding render_of_read by (simp add: comp_def)
  have s: "fst (build_summary_table py sdf) = sdf"
    by (simp add: build_summary_table_def)
  show ?thesis
    using p r d a l render_of_read s by blast
qed

end
